theory Spec2Isabelle
  imports Main "HOL-Library.AList"
begin

section \<open>Python values, dictionaries and exceptions\<close>

text \<open>
  The functions of \<^verbatim>\<open>help.py\<close> work on an argparse namespace, on dictionaries with string
  keys and on the values stored in them. A value is one of the shapes below. A dictionary
  is an association list in insertion order: assigning to a key that is present keeps its
  place, assigning to a new key appends it (this is \<open>AList.update\<close>), and \<open>pop\<close> removes
  the entry. Characters are code points below 256.
\<close>

datatype pyval =
    PNone
  | PBool bool
  | PInt int
  | PStr string
  | PList "pyval list"
  | PDict "(string \<times> pyval) list"
  | PSet "string set"

type_synonym pydict = "(string \<times> pyval) list"

text \<open>An argparse namespace is its \<^verbatim>\<open>__dict__\<close>: attribute name to value.\<close>

type_synonym namespace = "(string \<times> pyval) list"

text \<open>
  Every way a function of the module can stop without returning: \<^verbatim>\<open>sys.exit(msg)\<close> and
  the exceptions raised by attribute access, subscripting, the built-ins and the file system.
\<close>

datatype error =
    SysExit string
  | AttributeError string
  | KeyError string
  | TypeError
  | ValueError
  | OverflowError
  | OSError
  | FileNotFoundError
  | FileExistsError
  | IsADirectoryError
  | NotADirectoryError

definition bindE :: "error + 'a \<Rightarrow> ('a \<Rightarrow> error + 'b) \<Rightarrow> error + 'b" where
  "bindE m f = (case m of Inl e \<Rightarrow> Inl e | Inr v \<Rightarrow> f v)"

text \<open>Truth value of an object, as \<^verbatim>\<open>if v:\<close> and \<^verbatim>\<open>and\<close>/\<^verbatim>\<open>or\<close>/\<^verbatim>\<open>not\<close> test it.\<close>

fun truthy :: "pyval \<Rightarrow> bool" where
  "truthy PNone = False"
| "truthy (PBool b) = b"
| "truthy (PInt i) = (i \<noteq> 0)"
| "truthy (PStr s) = (s \<noteq> [])"
| "truthy (PList xs) = (xs \<noteq> [])"
| "truthy (PDict d) = (d \<noteq> [])"
| "truthy (PSet s) = (s \<noteq> {})"

text \<open>\<^verbatim>\<open>d[k]\<close> on a dictionary raises KeyError when the key is absent.\<close>

definition getitem :: "pydict \<Rightarrow> string \<Rightarrow> error + pyval" where
  "getitem d k = (case map_of d k of None \<Rightarrow> Inl (KeyError k) | Some v \<Rightarrow> Inr v)"

text \<open>\<^verbatim>\<open>v[k]\<close> with a string key on an arbitrary value: only a dictionary supports it.\<close>

fun subscript :: "pyval \<Rightarrow> string \<Rightarrow> error + pyval" where
  "subscript (PDict d) k = getitem d k"
| "subscript _ k = Inl TypeError"

text \<open>\<^verbatim>\<open>d.get(k, default)\<close>.\<close>

definition dict_get :: "pydict \<Rightarrow> string \<Rightarrow> pyval \<Rightarrow> pyval" where
  "dict_get d k dflt = (case map_of d k of None \<Rightarrow> dflt | Some v \<Rightarrow> v)"

text \<open>\<^verbatim>\<open>args.name\<close> raises AttributeError when the namespace has no such attribute.\<close>

definition getattr :: "namespace \<Rightarrow> string \<Rightarrow> error + pyval" where
  "getattr args name = (case map_of args name of None \<Rightarrow> Inl (AttributeError name) | Some v \<Rightarrow> Inr v)"

text \<open>
  \<^verbatim>\<open>set(v)\<close>: the elements of a list, the characters of a string, the keys of a
  dictionary; None, a bool and an int are not iterable. The sets of this module hold
  strings only, so a list element of another shape is reported as TypeError.
\<close>

fun str_elem :: "pyval \<Rightarrow> error + string" where
  "str_elem (PStr s) = Inr s"
| "str_elem _ = Inl TypeError"

fun str_elems :: "pyval list \<Rightarrow> error + string list" where
  "str_elems [] = Inr []"
| "str_elems (v # vs) = bindE (str_elem v) (\<lambda>s. bindE (str_elems vs) (\<lambda>ss. Inr (s # ss)))"

fun py_set :: "pyval \<Rightarrow> error + string set" where
  "py_set (PList xs) = bindE (str_elems xs) (\<lambda>ss. Inr (set ss))"
| "py_set (PStr s) = Inr (set (map (\<lambda>c. [c]) s))"
| "py_set (PDict d) = Inr (set (map fst d))"
| "py_set (PSet s) = Inr s"
| "py_set _ = Inl TypeError"

text \<open>\<^verbatim>\<open>str.lower()\<close> on code points below 256; another value has no such method.\<close>

definition lower_char :: "char \<Rightarrow> char" where
  "lower_char c =
     (let n = (of_char c :: nat)
      in if (65 \<le> n \<and> n \<le> 90) \<or> (192 \<le> n \<and> n \<le> 222 \<and> n \<noteq> 215)
         then char_of (n + 32) else c)"

fun lower :: "pyval \<Rightarrow> error + pyval" where
  "lower (PStr s) = Inr (PStr (map lower_char s))"
| "lower _ = Inl (AttributeError ''lower'')"

text \<open>The comprehension \<^verbatim>\<open>{k: v for k, v in d.items() if v != None}\<close>.\<close>

definition drop_none :: "pydict \<Rightarrow> pydict" where
  "drop_none d = filter (\<lambda>(k, v). v \<noteq> PNone) d"

section \<open>The capability table\<close>

definition EDR_DEETS :: pydict where
  "EDR_DEETS =
    [(''cbc'', PDict
       [(''full_name'', PStr ''VMware Carbon Black Cloud Enterprise EDR (CBC)''),
        (''required_credentials'', PStr ''VMware Carbon Black Cloud Enterprise EDR requires a URL, token, and org_key or a credential file located following the documentation at: https://github.com/redcanaryco/surveyor/wiki/Getting-started''),
        (''product_arguments'', PList [PStr ''device_group'', PStr ''device_policy''])]),
     (''cbr'', PDict
       [(''full_name'', PStr ''VMware Carbon Black EDR (CBr)''),
        (''required_credentials'', PStr ''VMware Carbon Black EDR requires a URL and token or a credential file located following the documentation at: https://github.com/redcanaryco/surveyor/wiki/Getting-started''),
        (''product_arguments'', PList [PStr ''sensor_group''])]),
     (''cortex'', PDict
       [(''full_name'', PStr ''Cortex XDR (Cortex)''),
        (''required_credentials'', PStr ''Cortex XDR requires a URL, api_key, api_key_id, and auth_type or a credential file and profile to be passed''),
        (''product_arguments'', PNone)]),
     (''dfe'', PDict
       [(''full_name'', PStr ''Microsoft Defender for Endpoint (DFE)''),
        (''required_credentials'', PStr ''Microsoft Defender for Endpoint requires a token or all of 'tenantId', 'appId', and 'appSecret', or a credential file and profile to be passed''),
        (''product_arguments'', PNone)]),
     (''s1'', PDict
       [(''full_name'', PStr ''SentinelOne (S1)''),
        (''required_credentials'', PStr ''SentinelOne requires a URL and token and one of the following site_ids, account_ids, or account_names, or a credential file and profile to be passed''),
        (''product_arguments'', PList [PStr ''deep_visibility''])])]"

text \<open>\<^verbatim>\<open>EDR_DEETS[edr][field]\<close>.\<close>

definition deets_field :: "string \<Rightarrow> string \<Rightarrow> error + pyval" where
  "deets_field edr field = bindE (getitem EDR_DEETS edr) (\<lambda>d. subscript d field)"

section \<open>The credential structural check\<close>

text \<open>Line 310: the names of the fields whose value is truthy.\<close>

definition cred_check :: "pydict \<Rightarrow> string list" where
  "cred_check creds = map fst (filter (\<lambda>(k, v). truthy v) creds)"

text \<open>The dictionary returned at lines 314 and 333.\<close>

definition cred_report :: "bool \<Rightarrow> string \<Rightarrow> error + pydict" where
  "cred_report state edr =
     bindE (deets_field edr ''required_credentials'') (\<lambda>rc.
       Inr [(''result'', PBool state), (''edr'', PStr edr), (''required_fields'', rc)])"

definition check_credentials_structure :: "string \<Rightarrow> pydict \<Rightarrow> error + pydict" where
  "check_credentials_structure edr creds =
     (let cc = cred_check creds;
          state = False
      in if edr \<in> set [''cbc'', ''cbr''] \<and> ''creds_file'' \<in> set cc then
           cred_report True edr
         else if ''creds_file'' \<in> set cc \<and> ''profile'' \<in> set cc then
           Inr [(''result'', PBool True), (''edr'', PStr edr),
                (''required_fields'',
                 PStr ''A profile and path to a credentials file argument have been supplied'')]
         else if edr = ''cbc'' \<and> list_all (\<lambda>field. field \<in> set cc) [''url'', ''token'', ''org_key''] then
           cred_report True edr
         else if edr = ''cbr'' \<and> list_all (\<lambda>field. field \<in> set cc) [''url'', ''token''] then
           cred_report True edr
         else if edr = ''cortex'' \<and>
                 list_all (\<lambda>field. field \<in> set cc) [''api_key'', ''url'', ''api_key_id'', ''auth_type''] then
           cred_report True edr
         else if edr = ''dfe'' \<and>
                 (''token'' \<in> set cc \<or>
                  list_all (\<lambda>field. field \<in> set cc) [''tenantId'', ''appId'', ''appSecret'']) then
           cred_report True edr
         else if edr = ''s1'' \<and> list_all (\<lambda>field. field \<in> set cc) [''url'', ''token''] \<and>
                 list_ex (\<lambda>field. field \<in> set cc) [''site_ids'', ''account_ids'', ''account_names''] then
           cred_report True edr
         else if \<not> truthy (dict_get EDR_DEETS edr PNone) then
           Inr [(''result'', PBool state), (''edr'', PStr (edr @ '' is not a supported EDR'')),
                (''required_fields'', PNone)]
         else cred_report state edr)"

section \<open>The product-argument structural check\<close>

definition check_product_args_structure :: "string \<Rightarrow> pydict \<Rightarrow> error + pydict" where
  "check_product_args_structure edr product_args =
     bindE (getitem EDR_DEETS edr) (\<lambda>edr_details.
     bindE (subscript edr_details ''full_name'') (\<lambda>full_name.
     bindE (subscript edr_details ''product_arguments'') (\<lambda>declared.
       let base = [(''result'', PBool False), (''edr'', full_name),
                   (''required_fields'', declared), (''incompatible_arguments'', PNone)]
       in if product_args = [] then
            Inr (AList.update ''required_fields'' (PStr ''No arguments were supplied'')
                  (AList.update ''result'' (PBool True) base))
          else
            let product_check = set (map fst product_args)
            in bindE (subscript edr_details ''product_arguments'') (\<lambda>pa.
               bindE (py_set pa) (\<lambda>required_fields_set.
                 let incompatible_arguments = required_fields_set - product_check;
                     compatible_arguments = required_fields_set \<inter> product_check;
                     base1 = (if compatible_arguments \<noteq> {}
                              then AList.update ''result'' (PBool True) base else base);
                     base2 = (if incompatible_arguments \<noteq> {}
                              then AList.update ''incompatible_arguments''
                                     (PSet incompatible_arguments) base1
                              else base1)
                 in Inr base2)))))"

section \<open>The two builders\<close>

definition product_arg_builder :: "namespace \<Rightarrow> error + pydict" where
  "product_arg_builder args =
     (let cbr_product_args = [(''sensor_group'', PNone)];
          cbc_product_args = [(''device_group'', PNone), (''device_policy'', PNone)];
          s1_product_args = [(''deep_visibility'', PNone)]
      in bindE (getattr args ''edr'') (\<lambda>edr.
         if edr = PStr ''cbc'' then
           bindE (getattr args ''device_group'') (\<lambda>device_group.
           let cbc1 = (if truthy device_group
                       then AList.update ''device_group'' device_group cbc_product_args
                       else cbc_product_args)
           in bindE (getattr args ''device_policy'') (\<lambda>device_policy.
              let cbc2 = (if truthy device_policy
                          then AList.update ''device_policy'' device_policy cbc1
                          else cbc1)
              in Inr (drop_none cbc2)))
         else
           bindE (getattr args ''sensor_group'') (\<lambda>sensor_group.
           if truthy sensor_group then
             Inr (drop_none (AList.update ''sensor_group'' sensor_group cbr_product_args))
           else
             bindE (getattr args ''dv'') (\<lambda>dv.
             if truthy dv then
               Inr (drop_none (AList.update ''deep_visibility'' (PBool True) s1_product_args))
             else Inr []))))"

text \<open>
  \<^verbatim>\<open>credential_builder\<close> returns a dictionary on five of its paths and falls off its end on
  the sixth, so its result is a value: \<open>PDict\<close> or \<open>PNone\<close>.
\<close>

definition credential_builder :: "namespace \<Rightarrow> error + pyval" where
  "credential_builder args =
     (let cbr_creds = [(''profile'', PStr ''default'')];
          cbc_creds = [(''profile'', PStr ''default'')];
          cortex_creds = [(''profile'', PStr ''''), (''auth_type'', PStr ''standard''),
                          (''tenant_ids'', PList []), (''creds_file'', PStr '''')];
          dfe_creds = [(''profile'', PStr ''''), (''creds_file'', PStr '''')];
          s1_creds = [(''profile'', PStr ''''), (''site_ids'', PList []), (''account_ids'', PList []),
                      (''account_names'', PList []), (''creds_file'', PStr '''')]
      in bindE (getattr args ''edr'') (\<lambda>edr.
         if edr = PStr ''cbc'' then
           bindE (getattr args ''profile'') (\<lambda>profile.
             Inr (PDict (if truthy profile then AList.update ''profile'' profile cbc_creds
                         else cbc_creds)))
         else if edr = PStr ''cbr'' then
           bindE (getattr args ''profile'') (\<lambda>profile.
             Inr (PDict (if truthy profile then AList.update ''profile'' profile cbr_creds
                         else cbr_creds)))
         else
           bindE (getattr args ''creds'') (\<lambda>creds.
           bindE (if truthy creds then getattr args ''profile'' else Inr creds) (\<lambda>creds_and_profile.
           if \<not> truthy creds_and_profile \<and> edr \<in> set [PStr ''cortex'', PStr ''dfe'', PStr ''s1''] then
             Inl (SysExit ''Cortex, S1, and DFE need to be passed the location to a credentials file, and a profile'')
           else if edr = PStr ''cortex'' then
             bindE (getattr args ''profile'') (\<lambda>profile.
             let cortex1 = AList.update ''creds_file'' creds
                             (AList.update ''profile'' profile cortex_creds)
             in bindE (getattr args ''auth_type'') (\<lambda>auth_type.
                bindE (if truthy auth_type
                       then bindE (lower auth_type) (\<lambda>l. Inr (AList.update ''auth_type'' l cortex1))
                       else Inr cortex1) (\<lambda>cortex2.
                bindE (getattr args ''tenant_ids'') (\<lambda>tenant_ids.
                  Inr (PDict (if truthy tenant_ids
                              then AList.update ''tenant_ids'' tenant_ids cortex2
                              else cortex2))))))
           else if edr = PStr ''dfe'' then
             bindE (getattr args ''profile'') (\<lambda>profile.
               Inr (PDict (AList.update ''creds_file'' creds
                            (AList.update ''profile'' profile dfe_creds))))
           else if edr = PStr ''s1'' then
             bindE (getattr args ''profile'') (\<lambda>profile.
             let s1a = AList.update ''creds_file'' creds (AList.update ''profile'' profile s1_creds)
             in bindE (getattr args ''site_ids'') (\<lambda>site_ids.
                let s1b = (if truthy site_ids then AList.update ''site_ids'' site_ids s1a else s1a)
                in bindE (getattr args ''account_ids'') (\<lambda>account_ids.
                   let s1c = (if truthy account_ids
                              then AList.update ''account_ids'' account_ids s1b else s1b)
                   in bindE (getattr args ''account_names'') (\<lambda>account_names.
                      Inr (PDict (if truthy account_names
                                  then AList.update ''account_names'' account_names s1c
                                  else s1c))))))
           else Inr PNone))))"

section \<open>The file system and the process environment\<close>

text \<open>
  \<^verbatim>\<open>build_survey\<close> reads the file system and, through \<^verbatim>\<open>logger\<close>, changes it and the
  logging state of the process. The state it runs in holds
  \<^item> the regular files (path to lines, as \<^verbatim>\<open>readlines\<close> returns them) and the directories;
  \<^item> what \<^verbatim>\<open>os.walk\<close> yields for a top directory;
  \<^item> the open file descriptors, since Python takes an int where it takes a path;
  \<^item> the level and the handlers of the root logger, which one call of \<^verbatim>\<open>logger\<close> leaves
    behind for the next.

  Paths are taken as written: there is no working directory, no normalisation, no symbolic
  link and no permission, and no path holds a NUL character. The listing of \<^verbatim>\<open>os.walk\<close> is
  a field of its own; the only file a run creates has the extension \<^verbatim>\<open>.log\<close>, which neither
  walk of \<^verbatim>\<open>build_survey\<close> selects.
\<close>

text \<open>
  An open descriptor refers to a regular file or to something else that can be read (a pipe,
  a terminal), each with the lines a read would give, or to a directory.
\<close>

datatype fd = FdFile "string list" | FdDir | FdOther "string list"

text \<open>
  A handler of the root logger writes to the console or appends to a file, and has a level.
  These are the handlers that \<^verbatim>\<open>logging.basicConfig()\<close> and \<^verbatim>\<open>logger\<close> install; the module
  installs no other. Levels are the numbers of \<^verbatim>\<open>logging\<close>: NOTSET 0, DEBUG 10, WARNING 30.
\<close>

datatype target = Stderr | File string

datatype handler = Handler target nat

record world =
  files :: "string \<rightharpoonup> string list"
  dirs :: "string set"
  walk :: "string \<Rightarrow> (string \<times> string list \<times> string list) list"
  fds :: "int \<rightharpoonup> fd"
  root_level :: nat
  root_handlers :: "handler list"

text \<open>
  What the module takes from the running process: the directory of \<^verbatim>\<open>__file__\<close>, the clock
  reading \<^verbatim>\<open>datetime.utcnow().strftime('%Y%m%d%H%M%S')\<close>, the text an f-string gives for
  a value, and the line the logging formatter builds around a message.
\<close>

record env =
  module_dir :: string
  utcnow :: string
  str_of :: "pyval \<Rightarrow> string"
  format_record :: "string \<Rightarrow> string"

text \<open>A computation that may change the world and either returns or stops with an error.\<close>

type_synonym 'a io = "world \<Rightarrow> (error + 'a) \<times> world"

definition returnIO :: "'a \<Rightarrow> 'a io" where
  "returnIO x = (\<lambda>w. (Inr x, w))"

definition raiseIO :: "error \<Rightarrow> 'a io" where
  "raiseIO e = (\<lambda>w. (Inl e, w))"

definition liftE :: "error + 'a \<Rightarrow> 'a io" where
  "liftE m = (\<lambda>w. (m, w))"

definition bindIO :: "'a io \<Rightarrow> ('a \<Rightarrow> 'b io) \<Rightarrow> 'b io" where
  "bindIO m f = (\<lambda>w. case m w of (Inl e, w') \<Rightarrow> (Inl e, w') | (Inr x, w') \<Rightarrow> f x w')"

definition attr :: "namespace \<Rightarrow> string \<Rightarrow> pyval io" where
  "attr args name = liftE (getattr args name)"

text \<open>\<^verbatim>\<open>a and b\<close>, \<^verbatim>\<open>a or b\<close>, \<^verbatim>\<open>not a\<close>, \<^verbatim>\<open>a is None\<close>: the right operand runs only when needed.\<close>

definition py_and :: "pyval io \<Rightarrow> pyval io \<Rightarrow> pyval io" where
  "py_and a b = bindIO a (\<lambda>x. if truthy x then b else returnIO x)"

definition py_or :: "pyval io \<Rightarrow> pyval io \<Rightarrow> pyval io" where
  "py_or a b = bindIO a (\<lambda>x. if truthy x then returnIO x else b)"

definition py_not :: "pyval io \<Rightarrow> pyval io" where
  "py_not a = bindIO a (\<lambda>x. returnIO (PBool (\<not> truthy x)))"

definition is_none :: "pyval io \<Rightarrow> pyval io" where
  "is_none a = bindIO a (\<lambda>x. returnIO (PBool (x = PNone)))"

text \<open>\<^verbatim>\<open>if cond: sys.exit(msg)\<close> followed by the rest of the function.\<close>

definition exit_if :: "pyval io \<Rightarrow> string \<Rightarrow> 'a io \<Rightarrow> 'a io" where
  "exit_if c msg rest = bindIO c (\<lambda>x. if truthy x then raiseIO (SysExit msg) else rest)"

subsection \<open>Paths\<close>

text \<open>
  What \<^verbatim>\<open>os.stat\<close> and \<^verbatim>\<open>open\<close> take: a string is a path; an int is a file descriptor, and
  so is a bool (True is 1); a descriptor outside the range of a C int raises OverflowError;
  any other value raises TypeError. Bytes paths are not among the values.
\<close>

datatype path_arg = Path string | Fd int

fun path_of :: "pyval \<Rightarrow> error + path_arg" where
  "path_of (PStr s) = Inr (Path s)"
| "path_of (PInt n) = (if n < - (2 ^ 31) \<or> 2 ^ 31 \<le> n then Inl OverflowError else Inr (Fd n))"
| "path_of (PBool b) = Inr (Fd (if b then 1 else 0))"
| "path_of _ = Inl TypeError"

text \<open>
  What \<^verbatim>\<open>os.fspath\<close> takes, and with it \<^verbatim>\<open>os.makedirs\<close>, \<^verbatim>\<open>os.walk\<close>, \<^verbatim>\<open>os.path.join\<close> and
  \<^verbatim>\<open>os.path.basename\<close>: a string only.
\<close>

fun fspath :: "pyval \<Rightarrow> error + string" where
  "fspath (PStr s) = Inr s"
| "fspath _ = Inl TypeError"

fun is_file :: "world \<Rightarrow> path_arg \<Rightarrow> bool" where
  "is_file w (Path p) = (files w p \<noteq> None)"
| "is_file w (Fd n) = (case fds w n of Some (FdFile ls) \<Rightarrow> True | _ \<Rightarrow> False)"

fun is_dir :: "world \<Rightarrow> path_arg \<Rightarrow> bool" where
  "is_dir w (Path p) = (p \<in> dirs w)"
| "is_dir w (Fd n) = (case fds w n of Some FdDir \<Rightarrow> True | _ \<Rightarrow> False)"

fun path_exists :: "world \<Rightarrow> path_arg \<Rightarrow> bool" where
  "path_exists w (Path p) = (files w p \<noteq> None \<or> p \<in> dirs w)"
| "path_exists w (Fd n) = (fds w n \<noteq> None)"

definition os_path_isfile :: "pyval \<Rightarrow> pyval io" where
  "os_path_isfile v = (\<lambda>w. (bindE (path_of v) (\<lambda>p. Inr (PBool (is_file w p))), w))"

definition os_path_isdir :: "pyval \<Rightarrow> pyval io" where
  "os_path_isdir v = (\<lambda>w. (bindE (path_of v) (\<lambda>p. Inr (PBool (is_dir w p))), w))"

definition os_path_exists :: "pyval \<Rightarrow> pyval io" where
  "os_path_exists v = (\<lambda>w. (bindE (path_of v) (\<lambda>p. Inr (PBool (path_exists w p))), w))"

definition os_walk :: "pyval \<Rightarrow> (string \<times> string list \<times> string list) list io" where
  "os_walk v = (\<lambda>w. (bindE (fspath v) (\<lambda>p. Inr (walk w p)), w))"

text \<open>\<^verbatim>\<open>posixpath.join\<close> of two components.\<close>

definition path_join :: "string \<Rightarrow> string \<Rightarrow> string" where
  "path_join a b =
     (if b \<noteq> [] \<and> hd b = CHR ''/'' then b
      else if a = [] \<or> last a = CHR ''/'' then a @ b
      else a @ ''/'' @ b)"

text \<open>
  \<^verbatim>\<open>posixpath.dirname\<close>: what stands up to the last slash, without its trailing slashes
  unless it consists of slashes only.
\<close>

definition dirname :: "string \<Rightarrow> string" where
  "dirname p =
     (let head = rev (dropWhile (\<lambda>c. c \<noteq> CHR ''/'') (rev p))
      in if head \<noteq> [] \<and> list_ex (\<lambda>c. c \<noteq> CHR ''/'') head
         then rev (dropWhile (\<lambda>c. c = CHR ''/'') (rev head))
         else head)"

text \<open>\<^verbatim>\<open>posixpath.basename\<close>: what follows the last slash.\<close>

definition basename :: "string \<Rightarrow> string" where
  "basename p = rev (takeWhile (\<lambda>c. c \<noteq> CHR ''/'') (rev p))"

text \<open>
  \<^verbatim>\<open>os.path.splitext(p)[1]\<close>: from the last dot of the base name, unless the base name
  has no dot or only dots before it.
\<close>

definition splitext_ext :: "string \<Rightarrow> string" where
  "splitext_ext p =
     (let base = basename p;
          stem = rev (tl (dropWhile (\<lambda>c. c \<noteq> CHR ''.'') (rev base)))
      in if CHR ''.'' \<in> set base \<and> list_ex (\<lambda>c. c \<noteq> CHR ''.'') stem
         then CHR ''.'' # rev (takeWhile (\<lambda>c. c \<noteq> CHR ''.'') (rev base))
         else [])"

definition endswith :: "string \<Rightarrow> string \<Rightarrow> bool" where
  "endswith s suffix = (length suffix \<le> length s \<and> drop (length s - length suffix) s = suffix)"

text \<open>\<^verbatim>\<open>str.strip()\<close>: the white space of Python among the code points below 256.\<close>

definition is_space :: "char \<Rightarrow> bool" where
  "is_space c =
     (let n = (of_char c :: nat)
      in (9 \<le> n \<and> n \<le> 13) \<or> (28 \<le> n \<and> n \<le> 32) \<or> n = 133 \<or> n = 160)"

definition strip :: "string \<Rightarrow> string" where
  "strip s = rev (dropWhile is_space (rev (dropWhile is_space s)))"

text \<open>
  The inner loops of lines 222 to 225 and 235 to 238: of every directory of the walk, the
  file names with the given extension, joined to the directory, in walk order.
\<close>

definition walk_select :: "string \<Rightarrow> (string \<times> string list \<times> string list) list \<Rightarrow> string list" where
  "walk_select ext triples =
     concat (map (\<lambda>(root_dir, ds, fs).
                    map (path_join root_dir) (filter (\<lambda>filename. splitext_ext filename = ext) fs))
                 triples)"

subsection \<open>Opening, creating and writing\<close>

text \<open>
  \<^verbatim>\<open>open(v).readlines()\<close>, by path or by descriptor: a negative descriptor raises
  ValueError, one that is not open raises OSError.
\<close>

definition open_read :: "pyval \<Rightarrow> string list io" where
  "open_read v =
     (\<lambda>w. (bindE (path_of v) (\<lambda>a.
              case a of
                Path p \<Rightarrow>
                  (case files w p of
                     Some ls \<Rightarrow> Inr ls
                   | None \<Rightarrow> if p \<in> dirs w then Inl IsADirectoryError else Inl FileNotFoundError)
              | Fd n \<Rightarrow>
                  if n < 0 then Inl ValueError
                  else (case fds w n of
                          None \<Rightarrow> Inl OSError
                        | Some (FdFile ls) \<Rightarrow> Inr ls
                        | Some FdDir \<Rightarrow> Inl IsADirectoryError
                        | Some (FdOther ls) \<Rightarrow> Inr ls)), w))"

text \<open>The proper ancestors of a path: what stands before each of its slashes.\<close>

definition ancestors :: "string \<Rightarrow> string list" where
  "ancestors p =
     filter (\<lambda>q. q \<noteq> [] \<and> last q \<noteq> CHR ''/'')
            (map (\<lambda>i. take i p) (filter (\<lambda>i. p ! i = CHR ''/'') [0..<length p]))"

text \<open>
  \<^verbatim>\<open>os.makedirs(path, exist_ok=True)\<close>: nothing to do for a directory that exists;
  otherwise the directory and its missing ancestors are created, unless a regular file
  is in the way.
\<close>

definition makedirs :: "pyval \<Rightarrow> unit io" where
  "makedirs v =
     (\<lambda>w. case fspath v of
             Inl e \<Rightarrow> (Inl e, w)
           | Inr p \<Rightarrow>
               if p = [] then (Inl FileNotFoundError, w)
               else if p \<in> dirs w then (Inr (), w)
               else if files w p \<noteq> None then (Inl FileExistsError, w)
               else if list_ex (\<lambda>q. files w q \<noteq> None) (ancestors p) then (Inl NotADirectoryError, w)
               else (Inr (), w\<lparr>dirs := dirs w \<union> insert p (set (ancestors p))\<rparr>))"

text \<open>
  \<^verbatim>\<open>logging.FileHandler(path)\<close> opens the file for appending at once. An existing file keeps
  its lines. A missing file is created empty, which needs its directory: the directory part
  of the path must be empty (the working directory), the root, or a directory of the world.
  The empty path stands for the working directory itself.
\<close>

definition open_append :: "string \<Rightarrow> unit io" where
  "open_append p =
     (\<lambda>w. if p = [] \<or> p \<in> dirs w then (Inl IsADirectoryError, w)
           else if files w p \<noteq> None then (Inr (), w)
           else if dirname p = [] \<or> \<not> list_ex (\<lambda>c. c \<noteq> CHR ''/'') (dirname p)
                   \<or> dirname p \<in> dirs w
                then (Inr (), w\<lparr>files := (files w)(p \<mapsto> [])\<rparr>)
           else if files w (dirname p) \<noteq> None then (Inl NotADirectoryError, w)
           else (Inl FileNotFoundError, w))"

subsection \<open>The root logger\<close>

text \<open>
  A handler gets a record when the level of the record is not below its own. A file
  handler then appends the formatted line to its file; the console is not part of the
  world. A handler keeps its file open, so the file is taken to be still at its path.
\<close>

fun emit :: "string \<Rightarrow> nat \<Rightarrow> handler \<Rightarrow> world \<Rightarrow> world" where
  "emit line lvl (Handler Stderr hl) w = w"
| "emit line lvl (Handler (File p) hl) w =
     (if hl \<le> lvl
      then w\<lparr>files := (files w)(p \<mapsto> (case files w p of None \<Rightarrow> [] | Some ls \<Rightarrow> ls) @ [line])\<rparr>
      else w)"

text \<open>
  \<^verbatim>\<open>root.log(lvl, msg)\<close>: dropped when the level of the root logger is above \<^verbatim>\<open>lvl\<close>,
  passed to every handler of the root logger in turn otherwise.
\<close>

definition root_log :: "env \<Rightarrow> nat \<Rightarrow> string \<Rightarrow> unit io" where
  "root_log e lvl msg =
     (\<lambda>w. (Inr (), if root_level w \<le> lvl
                    then fold (emit (format_record e msg) lvl) (root_handlers w) w
                    else w))"

text \<open>
  The module function \<^verbatim>\<open>logging.debug(msg)\<close>: a root logger without handlers first gets
  the console handler of \<^verbatim>\<open>basicConfig()\<close>, whose level is NOTSET.
\<close>

definition logging_debug :: "env \<Rightarrow> string \<Rightarrow> unit io" where
  "logging_debug e msg =
     bindIO (\<lambda>w. (Inr (), if root_handlers w = []
                           then w\<lparr>root_handlers := [Handler Stderr 0]\<rparr> else w))
       (\<lambda>_. root_log e 10 msg)"

text \<open>
  \<^verbatim>\<open>log.debug(msg)\<close> on the logger named \<^verbatim>\<open>surveyor\<close>. The module never configures that
  logger, so it has no level and no handler of its own and hands every record to the root
  logger. A logger is represented by its name.
\<close>

definition log_debug :: "env \<Rightarrow> string \<Rightarrow> string \<Rightarrow> unit io" where
  "log_debug e log msg = root_log e 10 msg"

text \<open>
  \<^verbatim>\<open>logger\<close>, lines 257 to 278. Line 260 logs through the root logger as the previous call
  left it; lines 264 and 265 then set its level to DEBUG and drop its handlers; line 276
  adds the handler of the new log file.
\<close>

definition logger :: "env \<Rightarrow> pyval \<Rightarrow> pyval \<Rightarrow> string io" where
  "logger e edr logs_dir =
     (let log = ''surveyor''
      in bindIO (logging_debug e (''Product: '' @ str_of e edr)) (\<lambda>_.
         bindIO (\<lambda>w. (Inr (), w\<lparr>root_level := 10\<rparr>)) (\<lambda>_.
         bindIO (\<lambda>w. (Inr (), w\<lparr>root_handlers := []\<rparr>)) (\<lambda>_.
         bindIO (makedirs logs_dir) (\<lambda>_.
         let log_file_name = utcnow e @ ''.'' @ str_of e edr @ ''.log''
         in bindIO (liftE (fspath logs_dir)) (\<lambda>d.
            let log_path = path_join d log_file_name
            in bindIO (open_append log_path) (\<lambda>_.
               bindIO (\<lambda>w. (Inr (), w\<lparr>root_handlers :=
                                          root_handlers w @ [Handler (File log_path) 10]\<rparr>)) (\<lambda>_.
               returnIO log))))))))"

section \<open>The survey specification builder\<close>

text \<open>
  Lines 168 to 170, one round of the loop: an attribute whose name is a key of the payload
  replaces the default unless it is None; for None the default is popped and stored again,
  which moves the key to the end.
\<close>

definition merge_step :: "string \<times> pyval \<Rightarrow> pydict \<Rightarrow> pydict" where
  "merge_step kv payload =
     (case kv of (k, v) \<Rightarrow>
        if k \<in> set (map fst payload) then
          (if v \<noteq> PNone then AList.update k v payload
           else (case map_of payload k of
                   Some d \<Rightarrow> AList.update k d (AList.delete k payload)
                 | None \<Rightarrow> payload))
        else payload)"

text \<open>Lines 172 to 194: the option combinations that end the process.\<close>

definition precheck :: "namespace \<Rightarrow> string \<Rightarrow> unit io" where
  "precheck args edr =
     exit_if (py_and (attr args ''iocfile'') (is_none (attr args ''ioctype'')))
       ''--iocfile requires --ioctype''
    (exit_if (py_and (attr args ''iocfile'')
                (py_not (bindIO (attr args ''ioc_file'') os_path_isfile)))
       ''Supplied --iocfile is not a file''
    (exit_if (py_and (py_or (attr args ''output'') (attr args ''prefix'')) (attr args ''no_file''))
       ''--output and --prefix cannot be used with --no-file''
    (exit_if (py_and (attr args ''days'') (attr args ''minutes''))
       ''--days and --minutes are mutually exclusive''
    (exit_if (py_and (py_or (attr args ''sigmarule'') (attr args ''sigmadir''))
                (returnIO (PBool (edr = ''cortex''))))
       (''Neither --sigmarule nor --sigmadir are supported by product '' @ [CHR 0x22] @ ''cortex'' @ [CHR 0x22])
    (exit_if (py_and (py_and (py_or (attr args ''sigmarule'') (attr args ''sigmadir''))
                        (returnIO (PBool (edr = ''s1''))))
                (py_not (attr args ''dv'')))
       ''Neither --sigmarule nor --sigmadir are supported by SentinelOne PowerQuery''
    (exit_if (py_and (attr args ''sigmarule'')
                (py_not (bindIO (attr args ''sigmarule'') os_path_isfile)))
       ''Supplied --sigmarule is not a file''
    (exit_if (py_and (attr args ''sigmadir'')
                (py_not (bindIO (attr args ''sigmadir'') os_path_isdir)))
       ''Supplied --sigmadir is not a directory''
    (returnIO ()))))))))"

text \<open>
  Lines 204 to 225: the list \<^verbatim>\<open>definition_files\<close>. The assignment to \<^verbatim>\<open>args.deffile\<close> at
  line 212 is read again only at line 215, so the resolved path is appended directly.
\<close>

definition resolve_definitions :: "env \<Rightarrow> namespace \<Rightarrow> string \<Rightarrow> pyval list io" where
  "resolve_definitions e args log =
     bindIO (attr args ''deffile'') (\<lambda>deffile.
     bindIO (if truthy deffile then
               bindIO (os_path_exists deffile) (\<lambda>ex.
               if \<not> truthy ex then
                 bindIO (liftE (fspath deffile)) (\<lambda>d.
                 let joined = path_join (path_join (module_dir e) ''definitions'') d;
                     repo_deffile = (if \<not> endswith joined ''.json'' then joined @ ''.json''
                                     else joined)
                 in bindIO (os_path_isfile (PStr repo_deffile)) (\<lambda>isf.
                    if truthy isf then
                      bindIO (log_debug e log (''Using repo definition file '' @ repo_deffile))
                        (\<lambda>_. returnIO [PStr repo_deffile])
                    else raiseIO (SysExit ''The deffile doesn't exist. Please try again.'')))
               else returnIO [deffile])
             else returnIO []) (\<lambda>definition_files.
     bindIO (attr args ''defdir'') (\<lambda>defdir.
     if truthy defdir then
       bindIO (os_path_exists defdir) (\<lambda>ex.
       if \<not> truthy ex then raiseIO (SysExit ''The defdir doesn't exist. Please try again.'')
       else bindIO (os_walk defdir) (\<lambda>triples.
              returnIO (definition_files @ map PStr (walk_select ''.json'' triples))))
     else returnIO definition_files)))"

text \<open>Lines 230 to 238: the list \<^verbatim>\<open>sigma_rules\<close>.\<close>

definition collect_sigma_rules :: "namespace \<Rightarrow> pyval list io" where
  "collect_sigma_rules args =
     bindIO (attr args ''sigmarule'') (\<lambda>sigmarule.
     let sigma_rules = (if truthy sigmarule then [sigmarule] else [])
     in bindIO (attr args ''sigmadir'') (\<lambda>sigmadir.
        if truthy sigmadir then
          bindIO (os_walk sigmadir) (\<lambda>triples.
            returnIO (sigma_rules @ map PStr (walk_select ''.yml'' triples)))
        else returnIO sigma_rules))"

text \<open>Lines 243 to 250: the IOC file, read into the payload.\<close>

definition load_iocs :: "namespace \<Rightarrow> pydict \<Rightarrow> pydict io" where
  "load_iocs args payload =
     bindIO (attr args ''iocfile'') (\<lambda>iocfile.
     if truthy iocfile then
       bindIO (open_read iocfile) (\<lambda>data.
       bindIO (liftE (fspath iocfile)) (\<lambda>p.
       let ioc_source = basename p;
           ioc_list = map strip data
       in bindIO (attr args ''ioctype'') (\<lambda>ioctype.
          returnIO (AList.update ''ioc_type'' ioctype
                     (AList.update ''ioc_list'' (PList (map PStr ioc_list))
                       (AList.update ''ioc_source'' (PStr ioc_source) payload))))))
     else returnIO payload)"

definition survey_defaults :: pydict where
  "survey_defaults =
     [(''prefix'', PNone), (''days'', PNone), (''minutes'', PNone), (''limit'', PNone),
      (''hostname'', PNone), (''username'', PNone), (''query'', PNone), (''output'', PNone),
      (''no_file'', PBool True), (''no_progress'', PBool False), (''log_dir'', PNone),
      (''log'', PNone), (''ioc_list'', PNone), (''ioc_source'', PNone), (''ioc_type'', PNone),
      (''definitions'', PNone), (''sigma_rules'', PNone), (''products_args'', PNone),
      (''output_format'', PStr ''csv'')]"

text \<open>
  The payload as it stands before the comprehension of line 254 prunes it, and
  \<^verbatim>\<open>build_survey\<close> itself.
\<close>

definition assemble :: "env \<Rightarrow> namespace \<Rightarrow> string \<Rightarrow> pydict io" where
  "assemble e args edr =
     (let survey_payload = fold merge_step args survey_defaults
      in bindIO (precheck args edr) (\<lambda>_.
         bindIO (attr args ''edr'') (\<lambda>args_edr.
         bindIO (attr args ''log_dir'') (\<lambda>log_dir.
         bindIO (logger e args_edr log_dir) (\<lambda>log.
         bindIO (resolve_definitions e args log) (\<lambda>definition_files.
         let definitions = [];
             payload1 = (if definitions \<noteq> []
                         then AList.update ''definitions'' (PDict definitions) survey_payload
                         else survey_payload)
         in bindIO (collect_sigma_rules args) (\<lambda>sigma_rules.
            let payload2 = (if sigma_rules \<noteq> []
                            then AList.update ''sigma_rules'' (PList sigma_rules) payload1
                            else payload1)
            in bindIO (load_iocs args payload2) (\<lambda>payload3.
               bindIO (liftE (product_arg_builder args)) (\<lambda>product_args.
               returnIO (AList.update ''product_args'' (PDict product_args) payload3))))))))))"

definition build_survey :: "env \<Rightarrow> namespace \<Rightarrow> string \<Rightarrow> pydict io" where
  "build_survey e args edr = bindIO (assemble e args edr) (\<lambda>survey_payload.
     returnIO (drop_none survey_payload))"

section \<open>Notions used in the statements\<close>

text \<open>A computation that leaves the world as it found it, whatever it returns.\<close>

definition readonly :: "'a io \<Rightarrow> bool" where
  "readonly m = (\<forall>w. snd (m w) = w)"

text \<open>
  The keys of the default payload that no later line of \<^verbatim>\<open>build_survey\<close> assigns again:
  all of them except \<^verbatim>\<open>sigma_rules\<close>, \<^verbatim>\<open>ioc_list\<close>, \<^verbatim>\<open>ioc_source\<close> and \<^verbatim>\<open>ioc_type\<close>.
\<close>

definition direct_fields :: "string list" where
  "direct_fields = [''prefix'', ''days'', ''minutes'', ''limit'', ''hostname'', ''username'',
     ''query'', ''output'', ''no_file'', ''no_progress'', ''log_dir'', ''log'', ''definitions'',
     ''products_args'', ''output_format'']"

text \<open>The path of the log file that lines 272 and 273 build.\<close>

definition log_file_path :: "env \<Rightarrow> string \<Rightarrow> pyval \<Rightarrow> string" where
  "log_file_path e d edr = path_join d (utcnow e @ ''.'' @ str_of e edr @ ''.log'')"

text \<open>The files that the file handlers of a list of handlers append to.\<close>

definition handler_files :: "handler list \<Rightarrow> string set" where
  "handler_files hs =
     set (concat (map (\<lambda>h. case h of Handler (File p) hl \<Rightarrow> [p] | Handler Stderr hl \<Rightarrow> []) hs))"

text \<open>Two worlds that differ in their files at most.\<close>

definition only_files_changed :: "world \<Rightarrow> world \<Rightarrow> bool" where
  "only_files_changed w w' =
     (dirs w' = dirs w \<and> walk w' = walk w \<and> fds w' = fds w \<and>
      root_level w' = root_level w \<and> root_handlers w' = root_handlers w)"

subsection \<open>Sample runs\<close>

text \<open>
  An environment; the world of a fresh process with an empty file system (the root logger
  at WARNING, without handlers); the world after a run has opened its log file in
  \<^verbatim>\<open>logs\<close>; the world after a second run in the same process; and three namespaces: a
  minimal one for the backend \<^verbatim>\<open>cbc\<close>, one whose host name is the empty string, and one
  that names an IOC file that does not exist.
\<close>

definition sample_env :: env where
  "sample_env = \<lparr>module_dir = ''/opt/surveyor'', utcnow = ''20240101000000'',
                  str_of = (\<lambda>v. case v of PStr s \<Rightarrow> s | _ \<Rightarrow> ''None''),
                  format_record = (\<lambda>msg. msg)\<rparr>"

definition empty_world :: world where
  "empty_world = \<lparr>files = Map.empty, dirs = {}, walk = (\<lambda>top. []), fds = Map.empty,
                   root_level = 30, root_handlers = []\<rparr>"

definition logged_world :: "string \<Rightarrow> world" where
  "logged_world name =
     \<lparr>files = [''logs/'' @ name \<mapsto> []], dirs = {''logs''}, walk = (\<lambda>top. []),
      fds = Map.empty, root_level = 10, root_handlers = [Handler (File (''logs/'' @ name)) 10]\<rparr>"

definition relogged_world :: world where
  "relogged_world =
     \<lparr>files = [''logs/20231231235959.cbr.log'' \<mapsto> [''Product: cbc''],
               ''logs/20240101000000.cbc.log'' \<mapsto> []],
      dirs = {''logs''}, walk = (\<lambda>top. []), fds = Map.empty, root_level = 10,
      root_handlers = [Handler (File ''logs/20240101000000.cbc.log'') 10]\<rparr>"

definition minimal_args :: namespace where
  "minimal_args =
     [(''edr'', PStr ''cbc''), (''days'', PInt 7), (''minutes'', PNone), (''prefix'', PNone),
      (''output'', PNone), (''no_file'', PBool True), (''log_dir'', PStr ''logs''),
      (''iocfile'', PNone), (''ioctype'', PNone), (''sigmarule'', PNone), (''sigmadir'', PNone),
      (''deffile'', PNone), (''defdir'', PNone), (''device_group'', PNone),
      (''device_policy'', PNone), (''sensor_group'', PNone), (''dv'', PBool False)]"

definition blank_args :: namespace where
  "blank_args =
     [(''edr'', PStr ''cbr''), (''hostname'', PStr ''''), (''days'', PNone), (''minutes'', PNone),
      (''prefix'', PNone), (''output'', PNone), (''no_file'', PBool False),
      (''log_dir'', PStr ''logs''), (''iocfile'', PNone), (''ioctype'', PNone),
      (''sigmarule'', PNone), (''sigmadir'', PNone), (''deffile'', PNone), (''defdir'', PNone),
      (''device_group'', PNone), (''device_policy'', PNone), (''sensor_group'', PNone),
      (''dv'', PBool False)]"

definition ioc_args :: namespace where
  "ioc_args =
     [(''edr'', PStr ''cbc''), (''days'', PInt 7), (''minutes'', PNone), (''prefix'', PNone),
      (''output'', PNone), (''no_file'', PBool True), (''log_dir'', PStr ''logs''),
      (''iocfile'', PStr ''/tmp/missing.txt''), (''ioctype'', PStr ''ipaddr''),
      (''sigmarule'', PNone), (''sigmadir'', PNone),
      (''deffile'', PNone), (''defdir'', PNone), (''device_group'', PNone),
      (''device_policy'', PNone), (''sensor_group'', PNone), (''dv'', PBool False)]"

section \<open>Auxiliary facts\<close>

subsection \<open>The capability table and the two checks\<close>

lemma deets_keys: "set (map fst EDR_DEETS) = {''cbc'', ''cbr'', ''cortex'', ''dfe'', ''s1''}"
  by (simp add: EDR_DEETS_def insert_commute)

lemma cred_report_cbc:
  "\<exists>rc. cred_report st ''cbc'' =
          Inr [(''result'', PBool st), (''edr'', PStr ''cbc''), (''required_fields'', rc)]"
  by (simp add: cred_report_def deets_field_def getitem_def bindE_def EDR_DEETS_def)

lemma cred_report_cbr:
  "\<exists>rc. cred_report st ''cbr'' =
          Inr [(''result'', PBool st), (''edr'', PStr ''cbr''), (''required_fields'', rc)]"
  by (simp add: cred_report_def deets_field_def getitem_def bindE_def EDR_DEETS_def)

lemma cred_check_mem: "(k, v) \<in> set creds \<Longrightarrow> truthy v \<Longrightarrow> k \<in> set (cred_check creds)"
  by (force simp: cred_check_def)

lemma check_product_args_cbc:
  "\<exists>r. check_product_args_structure ''cbc'' product_args = Inr r"
  by (simp add: check_product_args_structure_def getitem_def bindE_def EDR_DEETS_def Let_def)

lemma check_product_args_cbr:
  "\<exists>r. check_product_args_structure ''cbr'' product_args = Inr r"
  by (simp add: check_product_args_structure_def getitem_def bindE_def EDR_DEETS_def Let_def)

lemma check_product_args_s1:
  "\<exists>r. check_product_args_structure ''s1'' product_args = Inr r"
  by (simp add: check_product_args_structure_def getitem_def bindE_def EDR_DEETS_def Let_def)

lemma check_product_args_empty:
  assumes "edr \<in> set (map fst EDR_DEETS)"
  shows "\<exists>r. check_product_args_structure edr [] = Inr r"
proof -
  from assms have "edr = ''cbc'' \<or> edr = ''cbr'' \<or> edr = ''cortex'' \<or> edr = ''dfe'' \<or> edr = ''s1''"
    unfolding deets_keys by simp
  then show ?thesis
    by (elim disjE)
      (simp_all add: check_product_args_structure_def getitem_def bindE_def EDR_DEETS_def)
qed

lemma check_product_args_unknown:
  assumes "edr \<notin> set (map fst EDR_DEETS)"
  shows "check_product_args_structure edr product_args = Inl (KeyError edr)"
proof -
  from assms have "map_of EDR_DEETS edr = None"
    by (simp add: map_of_eq_None_iff)
  then show ?thesis
    by (simp add: check_product_args_structure_def getitem_def bindE_def)
qed

text \<open>
  On the three backends that declare product arguments, the check reports the two sets
  of lines 296 and 297 as the specification describes them.
\<close>

lemma check_product_args_declared:
  assumes "edr \<in> set [''cbc'', ''cbr'', ''s1'']" and "product_args \<noteq> []"
    and "bindE (deets_field edr ''product_arguments'') py_set = Inr required"
  shows "\<exists>r. check_product_args_structure edr product_args = Inr r \<and>
      map_of r ''result'' = Some (PBool (required \<inter> set (map fst product_args) \<noteq> {})) \<and>
      map_of r ''incompatible_arguments'' =
        Some (if required - set (map fst product_args) \<noteq> {}
              then PSet (required - set (map fst product_args)) else PNone)"
proof -
  from assms(1) have "edr = ''cbc'' \<or> edr = ''cbr'' \<or> edr = ''s1''" by simp
  then show ?thesis
    using assms(2,3)
    by (elim disjE)
      (auto simp add: check_product_args_structure_def getitem_def bindE_def EDR_DEETS_def
        deets_field_def Let_def)
qed

subsection \<open>Computations in the world\<close>

lemmas io_defs = bindIO_def returnIO_def raiseIO_def liftE_def attr_def py_and_def py_or_def
  py_not_def is_none_def exit_if_def getattr_def bindE_def

lemma bindIO_InrE:
  assumes "bindIO m f w = (Inr y, w')"
  obtains x w1 where "m w = (Inr x, w1)" and "f x w1 = (Inr y, w')"
  using assms by (auto simp: bindIO_def split: prod.splits sum.splits)

lemma readonlyD: "readonly m \<Longrightarrow> m w = (r, w') \<Longrightarrow> w' = w"
  by (auto simp: readonly_def dest: arg_cong [where f = snd])

lemma readonly_returnIO [intro!, simp]: "readonly (returnIO x)"
  by (simp add: readonly_def returnIO_def)

lemma readonly_raiseIO [intro!, simp]: "readonly (raiseIO x)"
  by (simp add: readonly_def raiseIO_def)

lemma readonly_liftE [intro!, simp]: "readonly (liftE x)"
  by (simp add: readonly_def liftE_def)

lemma readonly_attr [intro!, simp]: "readonly (attr args name)"
  by (simp add: attr_def)

lemma readonly_bindIO [intro!]:
  assumes "readonly m" and "\<And>x. readonly (f x)"
  shows "readonly (bindIO m f)"
  using assms by (auto simp: readonly_def bindIO_def split: prod.splits sum.splits)
    (metis snd_conv)+

lemma readonly_py_and [intro!]: "readonly a \<Longrightarrow> readonly b \<Longrightarrow> readonly (py_and a b)"
  by (auto simp: py_and_def)

lemma readonly_py_or [intro!]: "readonly a \<Longrightarrow> readonly b \<Longrightarrow> readonly (py_or a b)"
  by (auto simp: py_or_def)

lemma readonly_py_not [intro!]: "readonly a \<Longrightarrow> readonly (py_not a)"
  by (auto simp: py_not_def)

lemma readonly_is_none [intro!]: "readonly a \<Longrightarrow> readonly (is_none a)"
  by (auto simp: is_none_def)

lemma readonly_exit_if [intro!]: "readonly c \<Longrightarrow> readonly rest \<Longrightarrow> readonly (exit_if c msg rest)"
  by (auto simp: exit_if_def)

lemma readonly_os_path_isfile [intro!, simp]: "readonly (os_path_isfile v)"
  by (simp add: readonly_def os_path_isfile_def)

lemma readonly_os_path_isdir [intro!, simp]: "readonly (os_path_isdir v)"
  by (simp add: readonly_def os_path_isdir_def)

lemma readonly_os_path_exists [intro!, simp]: "readonly (os_path_exists v)"
  by (simp add: readonly_def os_path_exists_def)

lemma readonly_os_walk [intro!, simp]: "readonly (os_walk v)"
  by (simp add: readonly_def os_walk_def)

lemma readonly_open_read [intro!, simp]: "readonly (open_read v)"
  by (simp add: readonly_def open_read_def)

lemma readonly_precheck: "readonly (precheck args edr)"
  unfolding precheck_def
  by (intro readonly_exit_if readonly_py_and readonly_py_or readonly_py_not readonly_is_none
      readonly_bindIO readonly_attr readonly_returnIO readonly_os_path_isfile
      readonly_os_path_isdir)

lemma readonly_collect_sigma_rules: "readonly (collect_sigma_rules args)"
  unfolding collect_sigma_rules_def Let_def by auto

lemma readonly_load_iocs: "readonly (load_iocs args p)"
  unfolding load_iocs_def Let_def by auto

subsection \<open>What the logger and the definition-file lookup change\<close>

lemma makedirs_effect:
  assumes "makedirs v w = (Inr u, w')"
  shows "\<exists>d. v = PStr d \<and>
             dirs w' = (if d \<in> dirs w then dirs w else dirs w \<union> insert d (set (ancestors d))) \<and>
             files w' = files w \<and> walk w' = walk w \<and> fds w' = fds w \<and>
             root_level w' = root_level w \<and> root_handlers w' = root_handlers w"
  using assms by (cases v) (auto simp: makedirs_def split: if_splits)

lemma open_append_effect:
  assumes "open_append p w = (Inr u, w')"
  shows "only_files_changed w w' \<and>
         files w' = (files w)(p \<mapsto> (case files w p of None \<Rightarrow> [] | Some ls \<Rightarrow> ls))"
  using assms by (auto simp: open_append_def only_files_changed_def split: if_splits)

lemma emit_effect:
  "only_files_changed w (emit line lvl h w) \<and>
   (\<forall>p. p \<notin> handler_files [h] \<longrightarrow> files (emit line lvl h w) p = files w p) \<and>
   (\<forall>p ls. files w p = Some ls \<longrightarrow> (\<exists>more. files (emit line lvl h w) p = Some (ls @ more)))"
proof (cases h)
  case (Handler t hl)
  then show ?thesis
    by (cases t) (auto simp: only_files_changed_def handler_files_def)
qed

lemma fold_emit_effect:
  "only_files_changed w (fold (emit line lvl) hs w) \<and>
   (\<forall>p. p \<notin> handler_files hs \<longrightarrow> files (fold (emit line lvl) hs w) p = files w p) \<and>
   (\<forall>p ls. files w p = Some ls \<longrightarrow>
        (\<exists>more. files (fold (emit line lvl) hs w) p = Some (ls @ more)))"
proof (induction hs arbitrary: w)
  case Nil
  then show ?case by (simp add: only_files_changed_def)
next
  case (Cons h hs)
  let ?w1 = "emit line lvl h w"
  note step = emit_effect [of w line lvl h]
  note rest = Cons.IH [of ?w1]
  have hf: "handler_files (h # hs) = handler_files [h] \<union> handler_files hs"
    by (simp add: handler_files_def)
  have a: "only_files_changed w (fold (emit line lvl) (h # hs) w)"
    using step rest by (simp add: only_files_changed_def)
  have b: "files (fold (emit line lvl) (h # hs) w) p = files w p" if "p \<notin> handler_files (h # hs)" for p
    using step rest that unfolding hf by simp
  have c: "\<exists>more. files (fold (emit line lvl) (h # hs) w) p = Some (ls @ more)"
    if "files w p = Some ls" for p ls
  proof -
    from step that obtain m1 where "files ?w1 p = Some (ls @ m1)" by blast
    with rest obtain m2 where "files (fold (emit line lvl) hs ?w1) p = Some ((ls @ m1) @ m2)"
      by blast
    then show ?thesis by simp
  qed
  from a b c show ?case by blast
qed

lemma root_log_effect:
  assumes "root_log e lvl msg w = (r, w')"
  shows "r = Inr () \<and> only_files_changed w w' \<and>
         (\<forall>p. p \<notin> handler_files (root_handlers w) \<longrightarrow> files w' p = files w p) \<and>
         (\<forall>p ls. files w p = Some ls \<longrightarrow> (\<exists>more. files w' p = Some (ls @ more)))"
proof (cases "root_level w \<le> lvl")
  case True
  with assms have "w' = fold (emit (format_record e msg) lvl) (root_handlers w) w" and "r = Inr ()"
    by (auto simp: root_log_def)
  then show ?thesis
    using fold_emit_effect [of w "format_record e msg" lvl "root_handlers w"] by simp
next
  case False
  with assms show ?thesis
    by (auto simp: root_log_def only_files_changed_def)
qed

lemma logging_debug_effect:
  assumes "logging_debug e msg w = (r, w')"
  shows "r = Inr () \<and> dirs w' = dirs w \<and> walk w' = walk w \<and> fds w' = fds w \<and>
         root_level w' = root_level w \<and>
         (\<forall>p. p \<notin> handler_files (root_handlers w) \<longrightarrow> files w' p = files w p) \<and>
         (\<forall>p ls. files w p = Some ls \<longrightarrow> (\<exists>more. files w' p = Some (ls @ more)))"
proof (cases "root_handlers w = []")
  case True
  with assms have "root_log e 10 msg (w\<lparr>root_handlers := [Handler Stderr 0]\<rparr>) = (r, w')"
    by (simp add: logging_debug_def bindIO_def)
  from root_log_effect [OF this] show ?thesis
    by (simp add: only_files_changed_def handler_files_def)
next
  case False
  with assms have "root_log e 10 msg w = (r, w')"
    by (simp add: logging_debug_def bindIO_def)
  from root_log_effect [OF this] show ?thesis
    by (simp add: only_files_changed_def)
qed

lemma logger_effect:
  assumes "logger e ev ld w = (Inr lg, w')"
  shows "\<exists>d. ld = PStr d \<and>
           dirs w' = (if d \<in> dirs w then dirs w else dirs w \<union> insert d (set (ancestors d))) \<and>
           files w' = (files (snd (logging_debug e (''Product: '' @ str_of e ev) w)))
                        (log_file_path e d ev \<mapsto>
                           (case files (snd (logging_debug e (''Product: '' @ str_of e ev) w))
                                   (log_file_path e d ev)
                            of None \<Rightarrow> [] | Some ls \<Rightarrow> ls)) \<and>
           walk w' = walk w \<and> fds w' = fds w \<and> root_level w' = 10 \<and>
           root_handlers w' = [Handler (File (log_file_path e d ev)) 10]"
proof -
  from assms obtain u1 w1 u2 w2 u3 w3 u4 w4 d w5 u6 w6 where
    g: "logging_debug e (''Product: '' @ str_of e ev) w = (Inr u1, w1)" and
    a: "(\<lambda>w. (Inr (), w\<lparr>root_level := 10\<rparr>)) w1 = (Inr u2, w2)" and
    b: "(\<lambda>w. (Inr (), w\<lparr>root_handlers := []\<rparr>)) w2 = (Inr u3, w3)" and
    m: "makedirs ld w3 = (Inr u4, w4)" and
    p: "liftE (fspath ld) w4 = (Inr d, w5)" and
    o: "open_append (log_file_path e d ev) w5 = (Inr u6, w6)" and
    h: "w' = w6\<lparr>root_handlers := root_handlers w6 @ [Handler (File (log_file_path e d ev)) 10]\<rparr>"
    unfolding logger_def Let_def log_file_path_def
    by (elim bindIO_InrE) (auto simp: returnIO_def)
  from p have w5: "w5 = w4" and d: "fspath ld = Inr d"
    by (auto simp: liftE_def)
  from d have ld: "ld = PStr d" by (cases ld) auto
  from g have w1: "w1 = snd (logging_debug e (''Product: '' @ str_of e ev) w)" by simp
  note g' = logging_debug_effect [OF g]
  from a have w2: "w2 = w1\<lparr>root_level := 10\<rparr>" by simp
  from b have w3: "w3 = w2\<lparr>root_handlers := []\<rparr>" by simp
  note m' = makedirs_effect [OF m]
  note o' = open_append_effect [OF o]
  from m' ld have md: "dirs w4 = (if d \<in> dirs w3 then dirs w3 else dirs w3 \<union> insert d (set (ancestors d)))"
    and mf: "files w4 = files w3" "walk w4 = walk w3" "fds w4 = fds w3"
      "root_level w4 = root_level w3" "root_handlers w4 = root_handlers w3"
    by auto
  have d3: "dirs w3 = dirs w" "walk w3 = walk w" "fds w3 = fds w" "files w3 = files w1"
    "root_level w3 = 10" "root_handlers w3 = []"
    using g' w2 w3 by simp_all
  from o' have of1: "dirs w6 = dirs w5" "walk w6 = walk w5" "fds w6 = fds w5"
      "root_level w6 = root_level w5" "root_handlers w6 = root_handlers w5"
    and of2: "files w6 = (files w5)(log_file_path e d ev \<mapsto>
                (case files w5 (log_file_path e d ev) of None \<Rightarrow> [] | Some ls \<Rightarrow> ls))"
    by (simp_all add: only_files_changed_def)
  show ?thesis
    using ld md mf d3 of1 of2 w5 h w1 by auto
qed

lemma resolve_definitions_effect:
  assumes "resolve_definitions e args lg w = (Inr r, w')"
    and "root_level w = 10" and "root_handlers w = [Handler (File lp) 10]"
    and "files w lp = Some cur"
  shows "only_files_changed w w' \<and> (\<exists>more. files w' = (files w)(lp \<mapsto> cur @ more))"
proof -
  from assms(1) obtain deffile w1 dfs w2 defdir w3 where
    a: "attr args ''deffile'' w = (Inr deffile, w1)" and
    b: "(if truthy deffile then
               bindIO (os_path_exists deffile) (\<lambda>ex.
               if \<not> truthy ex then
                 bindIO (liftE (fspath deffile)) (\<lambda>d.
                 let joined = path_join (path_join (module_dir e) ''definitions'') d;
                     repo_deffile = (if \<not> endswith joined ''.json'' then joined @ ''.json''
                                     else joined)
                 in bindIO (os_path_isfile (PStr repo_deffile)) (\<lambda>isf.
                    if truthy isf then
                      bindIO (log_debug e lg (''Using repo definition file '' @ repo_deffile))
                        (\<lambda>_. returnIO [PStr repo_deffile])
                    else raiseIO (SysExit ''The deffile doesn't exist. Please try again.'')))
               else returnIO [deffile])
             else returnIO []) w1 = (Inr dfs, w2)" and
    c: "attr args ''defdir'' w2 = (Inr defdir, w3)" and
    d: "(if truthy defdir then
       bindIO (os_path_exists defdir) (\<lambda>ex.
       if \<not> truthy ex then raiseIO (SysExit ''The defdir doesn't exist. Please try again.'')
       else bindIO (os_walk defdir) (\<lambda>triples.
              returnIO (dfs @ map PStr (walk_select ''.json'' triples))))
     else returnIO dfs) w3 = (Inr r, w')"
    unfolding resolve_definitions_def by (elim bindIO_InrE) auto
  from a have w1: "w1 = w" by (rule readonlyD [OF readonly_attr])
  from c have w3: "w3 = w2" by (rule readonlyD [OF readonly_attr])
  have "readonly (if truthy defdir then
       bindIO (os_path_exists defdir) (\<lambda>ex.
       if \<not> truthy ex then raiseIO (SysExit ''The defdir doesn't exist. Please try again.'')
       else bindIO (os_walk defdir) (\<lambda>triples.
              returnIO (dfs @ map PStr (walk_select ''.json'' triples))))
     else returnIO dfs)"
    by auto
  from readonlyD [OF this d] have w': "w' = w3" .
  have same: "only_files_changed w1 w1 \<and> (\<exists>more. files w1 = (files w1)(lp \<mapsto> cur @ more))"
  proof -
    from assms(4) w1 have "files w1 = (files w1)(lp \<mapsto> cur @ [])" by auto
    then show ?thesis unfolding only_files_changed_def by blast
  qed
  have "only_files_changed w1 w2 \<and> (\<exists>more. files w2 = (files w1)(lp \<mapsto> cur @ more))"
  proof (cases "truthy deffile")
    case False
    with b have "w2 = w1" by (simp add: returnIO_def)
    with same show ?thesis by simp
  next
    case True
    with b obtain ex wa where
      e1: "os_path_exists deffile w1 = (Inr ex, wa)" and
      e2: "(if \<not> truthy ex then
                 bindIO (liftE (fspath deffile)) (\<lambda>d.
                 let joined = path_join (path_join (module_dir e) ''definitions'') d;
                     repo_deffile = (if \<not> endswith joined ''.json'' then joined @ ''.json''
                                     else joined)
                 in bindIO (os_path_isfile (PStr repo_deffile)) (\<lambda>isf.
                    if truthy isf then
                      bindIO (log_debug e lg (''Using repo definition file '' @ repo_deffile))
                        (\<lambda>_. returnIO [PStr repo_deffile])
                    else raiseIO (SysExit ''The deffile doesn't exist. Please try again.'')))
               else returnIO [deffile]) wa = (Inr dfs, w2)"
      by (auto elim: bindIO_InrE)
    from e1 have wa: "wa = w1" by (rule readonlyD [OF readonly_os_path_exists])
    show ?thesis
    proof (cases "truthy ex")
      case True
      with e2 wa have "w2 = w1" by (simp add: returnIO_def)
      with same show ?thesis by simp
    next
      case False
      with e2 obtain d wb isf wc u wd msg where
        f1: "liftE (fspath deffile) wa = (Inr d, wb)" and
        f2: "os_path_isfile (PStr (let joined = path_join (path_join (module_dir e) ''definitions'') d
               in if \<not> endswith joined ''.json'' then joined @ ''.json'' else joined)) wb
               = (Inr isf, wc)" and
        f3: "log_debug e lg msg wc = (Inr u, wd)" and
        f4: "w2 = wd"
        by (auto simp: Let_def returnIO_def raiseIO_def elim!: bindIO_InrE split: if_splits)
      from f1 have "wb = wa" by (rule readonlyD [OF readonly_liftE])
      moreover from f2 have "wc = wb" by (rule readonlyD [OF readonly_os_path_isfile])
      ultimately have wc: "wc = w" using wa w1 by simp
      from f3 have "wd = w\<lparr>files := (files w)(lp \<mapsto> cur @ [format_record e msg])\<rparr>"
        unfolding wc using assms(2,3,4) by (simp add: log_debug_def root_log_def)
      with f4 w1 show ?thesis
        unfolding only_files_changed_def by auto
    qed
  qed
  with w1 w3 w' show ?thesis by simp
qed

subsection \<open>The payload\<close>

lemma map_of_merge_step:
  "map_of (merge_step (k, v) p) =
     (if k \<in> set (map fst p) \<and> v \<noteq> PNone then (map_of p)(k \<mapsto> v) else map_of p)"
  by (auto simp: merge_step_def update_conv delete_conv fun_eq_iff split: option.splits)

lemma keys_merge_step: "set (map fst (merge_step kv p)) = set (map fst p)"
proof (cases kv)
  case (Pair k v)
  have "fst ` set (AList.update k d (AList.delete k p)) = fst ` set p"
    if "k \<in> fst ` set p" for d
    using that by (auto simp: dom_update AList.delete_eq image_iff)
  moreover have "fst ` set (AList.update k v p) = fst ` set p" if "k \<in> fst ` set p"
    using that by (auto simp: dom_update)
  ultimately show ?thesis
    using Pair by (auto simp: merge_step_def split: option.splits)
qed

lemma map_of_fold_merge_step:
  assumes "distinct (map fst args)" and "map_of args k = Some v" and "v \<noteq> PNone"
    and "k \<in> set (map fst p)"
  shows "map_of (fold merge_step args p) k = Some v"
  using assms
proof (induction args arbitrary: p)
  case Nil
  then show ?case by simp
next
  case (Cons a args)
  obtain k' v' where a: "a = (k', v')" by (cases a)
  show ?case
  proof (cases "k' = k")
    case True
    with Cons.prems a have v': "v' = v" and notin: "k \<notin> set (map fst args)" by auto
    have keep: "map_of (fold merge_step args q) k = map_of q k" for q
      using notin
    proof (induction args arbitrary: q)
      case Nil
      then show ?case by simp
    next
      case (Cons b bs)
      then show ?case by (cases b) (auto simp: map_of_merge_step)
    qed
    from Cons.prems True a v' show ?thesis
      by (simp add: keep map_of_merge_step)
  next
    case False
    with Cons.prems a have "map_of args k = Some v" "distinct (map fst args)" by auto
    moreover from Cons.prems have "k \<in> set (map fst (merge_step a p))"
      by (simp only: keys_merge_step)
    ultimately show ?thesis using Cons.IH Cons.prems(3) by simp
  qed
qed

lemma map_of_drop_none:
  "map_of d k = Some v \<Longrightarrow> v \<noteq> PNone \<Longrightarrow> map_of (drop_none d) k = Some v"
  by (induction d) (auto simp: drop_none_def)

lemma drop_none_values: "PNone \<notin> set (map snd (drop_none d))"
  by (auto simp: drop_none_def)


lemma build_survey_assemble:
  assumes "build_survey e args edr w = (Inr spec, w')"
  shows "\<exists>pre. assemble e args edr w = (Inr pre, w') \<and> spec = drop_none pre"
  using assms unfolding build_survey_def
  by (elim bindIO_InrE) (auto simp: returnIO_def)

lemma load_iocs_payload:
  assumes "load_iocs args p w = (Inr p', w')"
    and "k \<notin> set [''ioc_source'', ''ioc_list'', ''ioc_type'']"
  shows "map_of p' k = map_of p k"
proof (cases "\<exists>v. getattr args ''iocfile'' = Inr v \<and> truthy v")
  case False
  with assms(1) show ?thesis
    unfolding load_iocs_def
    by (elim bindIO_InrE) (auto simp: attr_def liftE_def returnIO_def split: if_splits)
next
  case True
  with assms(1) obtain a b c where
    "p' = AList.update ''ioc_type'' a
            (AList.update ''ioc_list'' b (AList.update ''ioc_source'' c p))"
    unfolding load_iocs_def Let_def
    by (elim bindIO_InrE)
      (auto simp: attr_def liftE_def returnIO_def split: if_splits elim!: bindIO_InrE)
  with assms(2) show ?thesis by (simp add: update_conv)
qed

lemma assemble_payload:
  assumes "assemble e args edr w = (Inr pre, w')"
  shows "\<exists>p3 pa. product_arg_builder args = Inr pa \<and>
            pre = AList.update ''product_args'' (PDict pa) p3 \<and>
            (\<forall>k. k \<notin> set [''sigma_rules'', ''ioc_source'', ''ioc_list'', ''ioc_type''] \<longrightarrow>
                 map_of p3 k = map_of (fold merge_step args survey_defaults) k)"
proof -
  from assms obtain sr w5 p3 w6 pa w7 where
    i: "load_iocs args (if sr \<noteq> [] then AList.update ''sigma_rules'' (PList sr)
                          (fold merge_step args survey_defaults)
                        else fold merge_step args survey_defaults) w5 = (Inr p3, w6)" and
    b: "liftE (product_arg_builder args) w6 = (Inr pa, w7)" and
    r: "pre = AList.update ''product_args'' (PDict pa) p3"
    unfolding assemble_def Let_def
    by (elim bindIO_InrE) (simp add: returnIO_def cong del: if_weak_cong)
  from b have "product_arg_builder args = Inr pa" by (simp add: liftE_def)
  moreover have "map_of p3 k = map_of (fold merge_step args survey_defaults) k"
    if "k \<notin> set [''sigma_rules'', ''ioc_source'', ''ioc_list'', ''ioc_type'']" for k
  proof -
    from that have "k \<notin> set [''ioc_source'', ''ioc_list'', ''ioc_type'']" by simp
    from load_iocs_payload [OF i this] that show ?thesis
      by (simp add: update_conv)
  qed
  ultimately show ?thesis using r by blast
qed

lemma precheck_ioc_file:
  assumes "getattr args ''iocfile'' = Inr f" and "truthy f"
    and "getattr args ''ioctype'' = Inr t" and "t \<noteq> PNone"
    and "map_of args ''ioc_file'' = None"
  shows "precheck args edr w = (Inl (AttributeError ''ioc_file''), w)"
proof -
  have "getattr args ''ioc_file'' = Inl (AttributeError ''ioc_file'')"
    using assms(5) by (simp add: getattr_def)
  then show ?thesis
    using assms(1-4)
    by (simp add: precheck_def exit_if_def py_and_def py_not_def is_none_def attr_def
        bindIO_def liftE_def returnIO_def raiseIO_def)
qed

subsection \<open>The sample runs, evaluated\<close>

lemma run_minimal:
  "build_survey sample_env minimal_args ''cbc'' empty_world =
     (Inr [(''days'', PInt 7), (''no_file'', PBool True), (''no_progress'', PBool False),
           (''log_dir'', PStr ''logs''), (''output_format'', PStr ''csv''),
           (''product_args'', PDict [])],
      logged_world ''20240101000000.cbc.log'')"
proof -
  have m: "fold merge_step minimal_args survey_defaults =
     [(''days'', PInt 7), (''limit'', PNone), (''hostname'', PNone), (''username'', PNone),
      (''query'', PNone), (''no_file'', PBool True), (''no_progress'', PBool False),
      (''log_dir'', PStr ''logs''), (''log'', PNone), (''ioc_list'', PNone),
      (''ioc_source'', PNone), (''ioc_type'', PNone), (''definitions'', PNone),
      (''sigma_rules'', PNone), (''products_args'', PNone), (''output_format'', PStr ''csv''),
      (''minutes'', PNone), (''prefix'', PNone), (''output'', PNone)]"
    by (simp add: minimal_args_def survey_defaults_def merge_step_def)
  have p: "precheck minimal_args ''cbc'' w = (Inr (), w)" for w
    by (simp add: precheck_def minimal_args_def io_defs)
  have a: "attr minimal_args ''edr'' w = (Inr (PStr ''cbc''), w)" for w
    by (simp add: minimal_args_def io_defs)
  have b: "attr minimal_args ''log_dir'' w = (Inr (PStr ''logs''), w)" for w
    by (simp add: minimal_args_def io_defs)
  have l: "logger sample_env (PStr ''cbc'') (PStr ''logs'') empty_world =
      (Inr ''surveyor'', logged_world ''20240101000000.cbc.log'')"
    by (simp add: logger_def logging_debug_def root_log_def makedirs_def open_append_def
        dirname_def io_defs sample_env_def empty_world_def logged_world_def path_join_def
        ancestors_def Let_def)
  have r: "resolve_definitions e minimal_args lp w = (Inr [], w)" for e lp w
    by (simp add: resolve_definitions_def minimal_args_def io_defs)
  have s: "collect_sigma_rules minimal_args w = (Inr [], w)" for w
    by (simp add: collect_sigma_rules_def minimal_args_def io_defs)
  have i: "load_iocs minimal_args q w = (Inr q, w)" for q w
    by (simp add: load_iocs_def minimal_args_def io_defs)
  have g: "product_arg_builder minimal_args = Inr []"
    by (simp add: product_arg_builder_def minimal_args_def getattr_def bindE_def drop_none_def)
  show ?thesis
    unfolding build_survey_def assemble_def m
    by (simp add: bindIO_def p a b l r s i g liftE_def returnIO_def drop_none_def)
qed

lemma run_blank:
  "build_survey sample_env blank_args ''cbr'' empty_world =
     (Inr [(''hostname'', PStr ''''), (''no_file'', PBool False), (''no_progress'', PBool False),
           (''log_dir'', PStr ''logs''), (''output_format'', PStr ''csv''),
           (''product_args'', PDict [])],
      logged_world ''20240101000000.cbr.log'')"
proof -
  have m: "fold merge_step blank_args survey_defaults =
     [(''limit'', PNone), (''hostname'', PStr ''''), (''username'', PNone), (''query'', PNone),
      (''no_file'', PBool False), (''no_progress'', PBool False), (''log_dir'', PStr ''logs''),
      (''log'', PNone), (''ioc_list'', PNone), (''ioc_source'', PNone), (''ioc_type'', PNone),
      (''definitions'', PNone), (''sigma_rules'', PNone), (''products_args'', PNone),
      (''output_format'', PStr ''csv''), (''days'', PNone), (''minutes'', PNone),
      (''prefix'', PNone), (''output'', PNone)]"
    by (simp add: blank_args_def survey_defaults_def merge_step_def)
  have p: "precheck blank_args ''cbr'' w = (Inr (), w)" for w
    by (simp add: precheck_def blank_args_def io_defs)
  have a: "attr blank_args ''edr'' w = (Inr (PStr ''cbr''), w)" for w
    by (simp add: blank_args_def io_defs)
  have b: "attr blank_args ''log_dir'' w = (Inr (PStr ''logs''), w)" for w
    by (simp add: blank_args_def io_defs)
  have l: "logger sample_env (PStr ''cbr'') (PStr ''logs'') empty_world =
      (Inr ''surveyor'', logged_world ''20240101000000.cbr.log'')"
    by (simp add: logger_def logging_debug_def root_log_def makedirs_def open_append_def
        dirname_def io_defs sample_env_def empty_world_def logged_world_def path_join_def
        ancestors_def Let_def)
  have r: "resolve_definitions e blank_args lp w = (Inr [], w)" for e lp w
    by (simp add: resolve_definitions_def blank_args_def io_defs)
  have s: "collect_sigma_rules blank_args w = (Inr [], w)" for w
    by (simp add: collect_sigma_rules_def blank_args_def io_defs)
  have i: "load_iocs blank_args q w = (Inr q, w)" for q w
    by (simp add: load_iocs_def blank_args_def io_defs)
  have g: "product_arg_builder blank_args = Inr []"
    by (simp add: product_arg_builder_def blank_args_def getattr_def bindE_def drop_none_def)
  show ?thesis
    unfolding build_survey_def assemble_def m
    by (simp add: bindIO_def p a b l r s i g liftE_def returnIO_def drop_none_def)
qed

text \<open>The minimal run once more, in the process that the run for \<^verbatim>\<open>cbr\<close> left behind.\<close>

lemma run_second:
  "build_survey sample_env minimal_args ''cbc'' (logged_world ''20231231235959.cbr.log'') =
     (Inr [(''days'', PInt 7), (''no_file'', PBool True), (''no_progress'', PBool False),
           (''log_dir'', PStr ''logs''), (''output_format'', PStr ''csv''),
           (''product_args'', PDict [])],
      relogged_world)"
proof -
  have m: "fold merge_step minimal_args survey_defaults =
     [(''days'', PInt 7), (''limit'', PNone), (''hostname'', PNone), (''username'', PNone),
      (''query'', PNone), (''no_file'', PBool True), (''no_progress'', PBool False),
      (''log_dir'', PStr ''logs''), (''log'', PNone), (''ioc_list'', PNone),
      (''ioc_source'', PNone), (''ioc_type'', PNone), (''definitions'', PNone),
      (''sigma_rules'', PNone), (''products_args'', PNone), (''output_format'', PStr ''csv''),
      (''minutes'', PNone), (''prefix'', PNone), (''output'', PNone)]"
    by (simp add: minimal_args_def survey_defaults_def merge_step_def)
  have p: "precheck minimal_args ''cbc'' w = (Inr (), w)" for w
    by (simp add: precheck_def minimal_args_def io_defs)
  have a: "attr minimal_args ''edr'' w = (Inr (PStr ''cbc''), w)" for w
    by (simp add: minimal_args_def io_defs)
  have b: "attr minimal_args ''log_dir'' w = (Inr (PStr ''logs''), w)" for w
    by (simp add: minimal_args_def io_defs)
  have l: "logger sample_env (PStr ''cbc'') (PStr ''logs'') (logged_world ''20231231235959.cbr.log'') =
      (Inr ''surveyor'', relogged_world)"
    by (simp add: logger_def logging_debug_def root_log_def makedirs_def open_append_def
        dirname_def io_defs sample_env_def relogged_world_def logged_world_def path_join_def
        ancestors_def Let_def)
  have r: "resolve_definitions e minimal_args lp w = (Inr [], w)" for e lp w
    by (simp add: resolve_definitions_def minimal_args_def io_defs)
  have s: "collect_sigma_rules minimal_args w = (Inr [], w)" for w
    by (simp add: collect_sigma_rules_def minimal_args_def io_defs)
  have i: "load_iocs minimal_args q w = (Inr q, w)" for q w
    by (simp add: load_iocs_def minimal_args_def io_defs)
  have g: "product_arg_builder minimal_args = Inr []"
    by (simp add: product_arg_builder_def minimal_args_def getattr_def bindE_def drop_none_def)
  show ?thesis
    unfolding build_survey_def assemble_def m
    by (simp add: bindIO_def p a b l r s i g liftE_def returnIO_def drop_none_def)
qed

section \<open>The survey specification: pruning\<close>




section \<open>The credential check\<close>

text \<open>
  C2, as the code has it. For every backend id that is not a key of the capability table
  and every credential mapping that does not hold both a truthy \<^verbatim>\<open>creds_file\<close> and a
  truthy \<^verbatim>\<open>profile\<close>, the credential check returns \<^verbatim>\<open>result\<close> False, \<^verbatim>\<open>required_fields\<close>
  None and the label that the backend is not a supported EDR. The test of line 316 comes
  before the table is consulted, so with both fields present the check passes for any id.
\<close>

theorem unsupported_backend_report:
  assumes "edr \<notin> set (map fst EDR_DEETS)"
    and "\<not> (''creds_file'' \<in> set (cred_check creds) \<and> ''profile'' \<in> set (cred_check creds))"
  shows "check_credentials_structure edr creds =
           Inr [(''result'', PBool False), (''edr'', PStr (edr @ '' is not a supported EDR'')),
                (''required_fields'', PNone)]"
proof -
  from assms(1) have ne: "edr \<noteq> ''cbc''" "edr \<noteq> ''cbr''" "edr \<noteq> ''cortex''" "edr \<noteq> ''dfe''"
    "edr \<noteq> ''s1''"
    unfolding deets_keys by auto
  from assms(1) have "map_of EDR_DEETS edr = None"
    by (simp add: map_of_eq_None_iff)
  then have g: "dict_get EDR_DEETS edr PNone = PNone"
    by (simp add: dict_get_def)
  show ?thesis
    using ne g assms(2) by (simp add: check_credentials_structure_def Let_def)
qed

text \<open>An unknown backend with a credentials file and an empty profile.\<close>

theorem unsupported_backend_report_witness:
  "''crowdstrike'' \<notin> set (map fst EDR_DEETS) \<and>
   \<not> (''creds_file'' \<in> set (cred_check [(''creds_file'', PStr ''/tmp/c''), (''profile'', PStr '''')]) \<and>
      ''profile'' \<in> set (cred_check [(''creds_file'', PStr ''/tmp/c''), (''profile'', PStr '''')])) \<and>
   check_credentials_structure ''crowdstrike''
       [(''creds_file'', PStr ''/tmp/c''), (''profile'', PStr '''')] =
     Inr [(''result'', PBool False), (''edr'', PStr ''crowdstrike is not a supported EDR''),
          (''required_fields'', PNone)]"
proof -
  have a: "''crowdstrike'' \<notin> set (map fst EDR_DEETS)"
    by (simp add: EDR_DEETS_def)
  have b: "\<not> (''creds_file'' \<in> set (cred_check [(''creds_file'', PStr ''/tmp/c''), (''profile'', PStr '''')]) \<and>
      ''profile'' \<in> set (cred_check [(''creds_file'', PStr ''/tmp/c''), (''profile'', PStr '''')]))"
    by (simp add: cred_check_def)
  from unsupported_backend_report [OF a b] a b show ?thesis by simp
qed

text \<open>The same unknown backend with both fields filled in: the check passes.\<close>

theorem unsupported_backend_counterexample:
  "''crowdstrike'' \<notin> set (map fst EDR_DEETS) \<and>
   check_credentials_structure ''crowdstrike''
       [(''creds_file'', PStr ''/tmp/c''), (''profile'', PStr ''x'')] =
     Inr [(''result'', PBool True), (''edr'', PStr ''crowdstrike''),
          (''required_fields'',
           PStr ''A profile and path to a credentials file argument have been supplied'')]"
  by (simp add: EDR_DEETS_def check_credentials_structure_def cred_check_def)

text \<open>
  C3. For every backend id, a credential mapping that holds a truthy (so non-empty)
  \<^verbatim>\<open>creds_file\<close> and a truthy \<^verbatim>\<open>profile\<close> makes the credential check return \<^verbatim>\<open>result\<close>
  True, whatever else the mapping holds.
\<close>

theorem creds_file_and_profile_pass:
  assumes "(''creds_file'', c) \<in> set creds" and "truthy c"
    and "(''profile'', p) \<in> set creds" and "truthy p"
  shows "\<exists>r. check_credentials_structure edr creds = Inr r \<and>
             map_of r ''result'' = Some (PBool True)"
proof -
  have cf: "''creds_file'' \<in> set (cred_check creds)"
    using assms(1,2) by (rule cred_check_mem)
  have pr: "''profile'' \<in> set (cred_check creds)"
    using assms(3,4) by (rule cred_check_mem)
  show ?thesis
  proof (cases "edr \<in> set [''cbc'', ''cbr'']")
    case True
    then have "check_credentials_structure edr creds = cred_report True edr"
      using cf by (simp add: check_credentials_structure_def)
    moreover from True have "edr = ''cbc'' \<or> edr = ''cbr''" by simp
    ultimately show ?thesis
      using cred_report_cbc [of True] cred_report_cbr [of True] by auto
  next
    case False
    then show ?thesis
      using cf pr by (simp add: check_credentials_structure_def)
  qed
qed

text \<open>The example of the specification, with one more field in the mapping.\<close>

theorem creds_file_and_profile_pass_witness:
  "(''creds_file'', PStr ''/tmp/c'') \<in>
      set [(''token'', PNone), (''creds_file'', PStr ''/tmp/c''), (''profile'', PStr ''x'')] \<and>
   truthy (PStr ''/tmp/c'') \<and>
   (''profile'', PStr ''x'') \<in>
      set [(''token'', PNone), (''creds_file'', PStr ''/tmp/c''), (''profile'', PStr ''x'')] \<and>
   truthy (PStr ''x'') \<and>
   (\<exists>r. check_credentials_structure ''dfe''
           [(''token'', PNone), (''creds_file'', PStr ''/tmp/c''), (''profile'', PStr ''x'')] = Inr r \<and>
        map_of r ''result'' = Some (PBool True))"
proof -
  have a: "(''creds_file'', PStr ''/tmp/c'') \<in>
      set [(''token'', PNone), (''creds_file'', PStr ''/tmp/c''), (''profile'', PStr ''x'')]"
    and b: "truthy (PStr ''/tmp/c'')"
    and c: "(''profile'', PStr ''x'') \<in>
      set [(''token'', PNone), (''creds_file'', PStr ''/tmp/c''), (''profile'', PStr ''x'')]"
    and d: "truthy (PStr ''x'')"
    by simp_all
  from creds_file_and_profile_pass [OF a b c d, of "''dfe''"] a b c d show ?thesis by blast
qed

section \<open>The product-argument check\<close>

text \<open>
  C4, as the code has it. The product-argument check returns a result without raising
  for the backends \<^verbatim>\<open>cbc\<close>, \<^verbatim>\<open>cbr\<close> and \<^verbatim>\<open>s1\<close> with any product arguments, and for every
  backend of the capability table with no product arguments. For a backend id that is not
  a key of the table, the lookup of line 281 raises KeyError.
\<close>

theorem check_product_args_returns:
  "(edr \<in> set [''cbc'', ''cbr'', ''s1''] \<longrightarrow>
      (\<exists>r. check_product_args_structure edr product_args = Inr r)) \<and>
   (edr \<in> set (map fst EDR_DEETS) \<longrightarrow> (\<exists>r. check_product_args_structure edr [] = Inr r)) \<and>
   (edr \<notin> set (map fst EDR_DEETS) \<longrightarrow>
      check_product_args_structure edr product_args = Inl (KeyError edr))"
  using check_product_args_cbc check_product_args_cbr check_product_args_s1
    check_product_args_empty check_product_args_unknown
  by auto

text \<open>One backend for each of the three parts.\<close>

theorem check_product_args_returns_witness:
  "''cbc'' \<in> set [''cbc'', ''cbr'', ''s1''] \<and>
   (\<exists>r. check_product_args_structure ''cbc'' [(''device_group'', PList [PStr ''g''])] = Inr r) \<and>
   ''cortex'' \<in> set (map fst EDR_DEETS) \<and>
   (\<exists>r. check_product_args_structure ''cortex'' [] = Inr r) \<and>
   ''crowdstrike'' \<notin> set (map fst EDR_DEETS) \<and>
   check_product_args_structure ''crowdstrike'' [(''device_group'', PList [PStr ''g''])] =
     Inl (KeyError ''crowdstrike'')"
proof -
  have a: "''cbc'' \<in> set [''cbc'', ''cbr'', ''s1'']" by simp
  have b: "''cortex'' \<in> set (map fst EDR_DEETS)" by (simp add: EDR_DEETS_def)
  have c: "''crowdstrike'' \<notin> set (map fst EDR_DEETS)" by (simp add: EDR_DEETS_def)
  from a b c
    check_product_args_returns [of "''cbc''" "[(''device_group'', PList [PStr ''g''])]"]
    check_product_args_returns [of "''cortex''" "[]"]
    check_product_args_returns [of "''crowdstrike''" "[(''device_group'', PList [PStr ''g''])]"]
  show ?thesis by blast
qed

text \<open>An id outside the table, with no product arguments at all: KeyError.\<close>

theorem check_product_args_counterexample:
  "''crowdstrike'' \<notin> set (map fst EDR_DEETS) \<and>
   check_product_args_structure ''crowdstrike'' [] = Inl (KeyError ''crowdstrike'')"
  by (simp add: check_product_args_structure_def getitem_def bindE_def EDR_DEETS_def)

text \<open>
  C5 at the backend \<^verbatim>\<open>cortex\<close>, a key of the capability table, with one product argument:
  the table gives None for its product arguments, \<^verbatim>\<open>set(None)\<close> at line 294 raises
  TypeError, and no result is returned.
\<close>

theorem check_product_args_cortex_raises:
  "''cortex'' \<in> set (map fst EDR_DEETS) \<and>
   check_product_args_structure ''cortex'' [(''sensor_group'', PList [PStr ''g''])] = Inl TypeError"
  by (simp add: check_product_args_structure_def getitem_def bindE_def EDR_DEETS_def Let_def)

section \<open>The product-argument builder\<close>

text \<open>
  C6 at the backend \<^verbatim>\<open>s1\<close> with a sensor group supplied: the branch commented as CBr does
  not test the backend, so the builder returns the sensor group, which is not among the
  product arguments the table declares for \<^verbatim>\<open>s1\<close>.
\<close>

theorem product_arg_builder_keeps_foreign_flag:
  "product_arg_builder [(''edr'', PStr ''s1''), (''device_group'', PNone), (''device_policy'', PNone),
                        (''sensor_group'', PList [PStr ''g'']), (''dv'', PBool False)]
     = Inr [(''sensor_group'', PList [PStr ''g''])] \<and>
   bindE (deets_field ''s1'' ''product_arguments'') py_set = Inr {''deep_visibility''}"
  by (simp add: product_arg_builder_def getattr_def bindE_def drop_none_def deets_field_def
        getitem_def EDR_DEETS_def)

section \<open>The survey specification: the IOC file\<close>

text \<open>
  C7 on the code. Line 175 reads \<^verbatim>\<open>args.ioc_file\<close>, while every other line reads
  \<^verbatim>\<open>args.iocfile\<close>. For a namespace without an attribute \<^verbatim>\<open>ioc_file\<close>, an IOC file path
  given together with an IOC type ends \<^verbatim>\<open>build_survey\<close> with AttributeError, whether the
  file exists or not, and not with the message of line 176.
\<close>

theorem build_survey_ioc_file_attribute:
  assumes "getattr args ''iocfile'' = Inr f" and "truthy f"
    and "getattr args ''ioctype'' = Inr t" and "t \<noteq> PNone"
    and "map_of args ''ioc_file'' = None"
  shows "build_survey e args edr w = (Inl (AttributeError ''ioc_file''), w)"
  using precheck_ioc_file [OF assms, of edr w]
  by (simp add: build_survey_def assemble_def bindIO_def Let_def)

text \<open>An IOC file path that names no file of the world.\<close>

theorem build_survey_ioc_file_attribute_witness:
  "getattr ioc_args ''iocfile'' = Inr (PStr ''/tmp/missing.txt'') \<and>
   truthy (PStr ''/tmp/missing.txt'') \<and>
   getattr ioc_args ''ioctype'' = Inr (PStr ''ipaddr'') \<and> PStr ''ipaddr'' \<noteq> PNone \<and>
   map_of ioc_args ''ioc_file'' = None \<and>
   files empty_world ''/tmp/missing.txt'' = None \<and>
   build_survey sample_env ioc_args ''cbc'' empty_world =
     (Inl (AttributeError ''ioc_file''), empty_world)"
proof -
  have h: "getattr ioc_args ''iocfile'' = Inr (PStr ''/tmp/missing.txt'')"
    "truthy (PStr ''/tmp/missing.txt'')"
    "getattr ioc_args ''ioctype'' = Inr (PStr ''ipaddr'')" "PStr ''ipaddr'' \<noteq> PNone"
    "map_of ioc_args ''ioc_file'' = None"
    by (simp_all add: ioc_args_def getattr_def)
  have "files empty_world ''/tmp/missing.txt'' = None"
    by (simp add: empty_world_def)
  with h build_survey_ioc_file_attribute [OF h, of sample_env "''cbc''" empty_world]
  show ?thesis by simp
qed

section \<open>The survey specification: effects on the file system\<close>

text \<open>
  C8, as the code has it. For every option set that \<^verbatim>\<open>build_survey\<close> accepts, with \<^verbatim>\<open>d\<close>
  the value of \<^verbatim>\<open>args.log_dir\<close>:
  \<^item> if \<^verbatim>\<open>d\<close> is not a directory before the call, it and all its ancestors are directories
    afterwards, and no other directory is new; if it is one, the directories are as before;
  \<^item> the log file in \<^verbatim>\<open>d\<close> named after the clock and \<^verbatim>\<open>args.edr\<close> exists afterwards;
  \<^item> the files are those that line 260 leaves (it appends the line for \<^verbatim>\<open>Product: <edr>\<close>
    to the file of every file handler that the root logger has from an earlier call, when
    its level admits DEBUG), with the log file created if absent and lines appended to it;
  \<^item> so a file that is neither the log file nor the file of such an earlier handler is
    untouched, and no file is removed or loses a line;
  \<^item> the directory listings and the open descriptors are as before, and the root logger
    ends at level DEBUG with the handler of the log file as its only handler.
\<close>

theorem build_survey_frame:
  assumes "build_survey e args edr w = (Inr spec, w')"
  shows "\<exists>d ev. getattr args ''log_dir'' = Inr (PStr d) \<and> getattr args ''edr'' = Inr ev \<and>
           dirs w' = (if d \<in> dirs w then dirs w else dirs w \<union> insert d (set (ancestors d))) \<and>
           files w' (log_file_path e d ev) \<noteq> None \<and>
           (\<exists>more. files w' =
              (files (snd (logging_debug e (''Product: '' @ str_of e ev) w)))
                (log_file_path e d ev \<mapsto>
                   (case files (snd (logging_debug e (''Product: '' @ str_of e ev) w))
                           (log_file_path e d ev)
                    of None \<Rightarrow> [] | Some ls \<Rightarrow> ls) @ more)) \<and>
           (\<forall>p. p \<noteq> log_file_path e d ev \<and> p \<notin> handler_files (root_handlers w)
                \<longrightarrow> files w' p = files w p) \<and>
           (\<forall>p ls. files w p = Some ls \<longrightarrow> (\<exists>more. files w' p = Some (ls @ more))) \<and>
           walk w' = walk w \<and> fds w' = fds w \<and> root_level w' = 10 \<and>
           root_handlers w' = [Handler (File (log_file_path e d ev)) 10]"
proof -
  from build_survey_assemble [OF assms] obtain pre where
    pre: "assemble e args edr w = (Inr pre, w')" by blast
  then obtain u w1 ev w2 ld w3 lg w4 dfs w5 sr w6 p2 p3 w7 pa w8 where
    s1: "precheck args edr w = (Inr u, w1)" and
    s2: "attr args ''edr'' w1 = (Inr ev, w2)" and
    s3: "attr args ''log_dir'' w2 = (Inr ld, w3)" and
    s4: "logger e ev ld w3 = (Inr lg, w4)" and
    s5: "resolve_definitions e args lg w4 = (Inr dfs, w5)" and
    s6: "collect_sigma_rules args w5 = (Inr sr, w6)" and
    s7: "load_iocs args p2 w6 = (Inr p3, w7)" and
    s8: "liftE (product_arg_builder args) w7 = (Inr pa, w8)" and
    s9: "w' = w8"
    unfolding assemble_def Let_def
    by (elim bindIO_InrE) (auto simp: returnIO_def)
  from s1 have w1: "w1 = w" by (rule readonlyD [OF readonly_precheck])
  from s2 have w2: "w2 = w1" by (rule readonlyD [OF readonly_attr])
  from s3 have w3: "w3 = w2" by (rule readonlyD [OF readonly_attr])
  from s6 have w6: "w6 = w5" by (rule readonlyD [OF readonly_collect_sigma_rules])
  from s7 have w7: "w7 = w6" by (rule readonlyD [OF readonly_load_iocs])
  from s8 have w8: "w8 = w7" by (rule readonlyD [OF readonly_liftE])
  have e0: "w3 = w" "w' = w5" using w1 w2 w3 w6 w7 w8 s9 by simp_all
  from s2 have a1: "getattr args ''edr'' = Inr ev" by (simp add: attr_def liftE_def)
  from s3 have a2: "getattr args ''log_dir'' = Inr ld" by (simp add: attr_def liftE_def)
  define wd where "wd = snd (logging_debug e (''Product: '' @ str_of e ev) w)"
  from logger_effect [OF s4] obtain d where
    ld: "ld = PStr d" and
    l1: "dirs w4 = (if d \<in> dirs w then dirs w else dirs w \<union> insert d (set (ancestors d)))" and
    l2: "files w4 = (files wd)(log_file_path e d ev \<mapsto>
            (case files wd (log_file_path e d ev) of None \<Rightarrow> [] | Some ls \<Rightarrow> ls))" and
    l3: "walk w4 = walk w" "fds w4 = fds w" "root_level w4 = 10"
        "root_handlers w4 = [Handler (File (log_file_path e d ev)) 10]"
    unfolding e0 wd_def by blast
  let ?lp = "log_file_path e d ev"
  let ?cur = "case files wd ?lp of None \<Rightarrow> [] | Some ls \<Rightarrow> ls"
  from l2 have cur: "files w4 ?lp = Some ?cur" by simp
  from resolve_definitions_effect [OF s5 l3(3) l3(4) cur] obtain more where
    r1: "only_files_changed w4 w5" and
    r2: "files w5 = (files w4)(?lp \<mapsto> ?cur @ more)"
    by blast
  from r2 l2 have f: "files w' = (files wd)(?lp \<mapsto> ?cur @ more)"
    unfolding e0 by simp
  have wd: "logging_debug e (''Product: '' @ str_of e ev) w =
              (fst (logging_debug e (''Product: '' @ str_of e ev) w), wd)"
    unfolding wd_def by simp
  note g = logging_debug_effect [OF wd]
  have c1: "files w' ?lp \<noteq> None" using f by simp
  have c2: "files w' p = files w p" if "p \<noteq> ?lp" "p \<notin> handler_files (root_handlers w)" for p
    using f g that by simp
  have c3: "\<exists>m. files w' p = Some (ls @ m)" if "files w p = Some ls" for p ls
  proof -
    from g that obtain m1 where m1: "files wd p = Some (ls @ m1)" by blast
    show ?thesis
    proof (cases "p = ?lp")
      case True
      with m1 f have "files w' p = Some (ls @ (m1 @ more))" by simp
      then show ?thesis by blast
    next
      case False
      with m1 f show ?thesis by simp
    qed
  qed
  from r1 l1 l3 have c4: "dirs w' = (if d \<in> dirs w then dirs w else dirs w \<union> insert d (set (ancestors d)))"
    "walk w' = walk w" "fds w' = fds w" "root_level w' = 10"
    "root_handlers w' = [Handler (File ?lp) 10]"
    unfolding e0 only_files_changed_def by simp_all
  from f have c5: "\<exists>more. files w' = (files wd)(?lp \<mapsto> ?cur @ more)" by blast
  from a1 a2 ld c1 c2 c3 c4 c5 show ?thesis
    unfolding wd_def by blast
qed

text \<open>
  The theorem at the second run of a process: the first run left the handler of its log
  file with the root logger, and the second run appends its product line to that file
  before it opens its own.
\<close>

theorem build_survey_frame_witness:
  "build_survey sample_env minimal_args ''cbc'' (logged_world ''20231231235959.cbr.log'') =
     (Inr [(''days'', PInt 7), (''no_file'', PBool True), (''no_progress'', PBool False),
           (''log_dir'', PStr ''logs''), (''output_format'', PStr ''csv''),
           (''product_args'', PDict [])],
      relogged_world) \<and>
   dirs relogged_world = dirs (logged_world ''20231231235959.cbr.log'') \<and>
   files relogged_world ''logs/20240101000000.cbc.log'' \<noteq> None \<and>
   files relogged_world ''logs/20231231235959.cbr.log'' = Some [''Product: cbc''] \<and>
   files relogged_world ''/etc/hosts'' = files (logged_world ''20231231235959.cbr.log'') ''/etc/hosts'' \<and>
   root_handlers relogged_world = [Handler (File ''logs/20240101000000.cbc.log'') 10]"
proof -
  have a: "getattr minimal_args ''log_dir'' = Inr (PStr ''logs'')"
    and b: "getattr minimal_args ''edr'' = Inr (PStr ''cbc'')"
    by (simp_all add: minimal_args_def getattr_def)
  have c: "log_file_path sample_env ''logs'' (PStr ''cbc'') = ''logs/20240101000000.cbc.log''"
    by (simp add: log_file_path_def path_join_def sample_env_def)
  have d: "''logs'' \<in> dirs (logged_world ''20231231235959.cbr.log'')"
    "''/etc/hosts'' \<notin> handler_files (root_handlers (logged_world ''20231231235959.cbr.log''))"
    by (simp_all add: logged_world_def handler_files_def)
  have f: "files relogged_world ''logs/20231231235959.cbr.log'' = Some [''Product: cbc'']"
    by (simp add: relogged_world_def)
  from build_survey_frame [OF run_second] a b c d f run_second show ?thesis
    by auto
qed

text \<open>
  The minimal run starts with no directory and no file, and ends with the directory
  \<^verbatim>\<open>logs\<close> and an empty log file in it: both were created by the run.
\<close>

theorem build_survey_frame_counterexample:
  "build_survey sample_env minimal_args ''cbc'' empty_world =
     (Inr [(''days'', PInt 7), (''no_file'', PBool True), (''no_progress'', PBool False),
           (''log_dir'', PStr ''logs''), (''output_format'', PStr ''csv''),
           (''product_args'', PDict [])],
      logged_world ''20240101000000.cbc.log'') \<and>
   ''logs'' \<notin> dirs empty_world \<and>
   ''logs'' \<in> dirs (logged_world ''20240101000000.cbc.log'') \<and>
   files empty_world ''logs/20240101000000.cbc.log'' = None \<and>
   files (logged_world ''20240101000000.cbc.log'') ''logs/20240101000000.cbc.log'' = Some []"
  using run_minimal by (simp add: empty_world_def logged_world_def)

section \<open>The survey specification: what is kept\<close>

text \<open>
  C9. For every option set that \<^verbatim>\<open>build_survey\<close> accepts (a namespace has each attribute
  once), no key of the returned specification maps to None, and every value other than
  None is kept, empty or not: each entry of the payload of line 252 whose value is not
  None is an entry of the specification; \<^verbatim>\<open>product_args\<close> is present with whatever the
  product-argument builder returned, the empty mapping included; and an attribute of the
  namespace that is not None and is named like a directly copied field appears with its
  value, be it an empty string, an empty list, an empty mapping or False.
\<close>

theorem build_survey_keeps_empty_values:
  assumes "build_survey e args edr w = (Inr spec, w')" and "distinct (map fst args)"
  shows "PNone \<notin> set (map snd spec) \<and>
         (\<exists>pre. assemble e args edr w = (Inr pre, w') \<and>
                (\<forall>k v. map_of pre k = Some v \<and> v \<noteq> PNone \<longrightarrow> map_of spec k = Some v)) \<and>
         (\<exists>pa. product_arg_builder args = Inr pa \<and>
               map_of spec ''product_args'' = Some (PDict pa)) \<and>
         (\<forall>k v. k \<in> set direct_fields \<and> map_of args k = Some v \<and> v \<noteq> PNone
                 \<longrightarrow> map_of spec k = Some v)"
proof -
  from build_survey_assemble [OF assms(1)] obtain pre where
    pre: "assemble e args edr w = (Inr pre, w')" and spec: "spec = drop_none pre" by blast
  from assemble_payload [OF pre] obtain p3 pa where
    pa: "product_arg_builder args = Inr pa" and
    upd: "pre = AList.update ''product_args'' (PDict pa) p3" and
    same: "\<And>k. k \<notin> set [''sigma_rules'', ''ioc_source'', ''ioc_list'', ''ioc_type''] \<Longrightarrow>
                 map_of p3 k = map_of (fold merge_step args survey_defaults) k"
    by blast
  have c1: "PNone \<notin> set (map snd spec)"
    unfolding spec by (rule drop_none_values)
  have c2: "\<forall>k v. map_of pre k = Some v \<and> v \<noteq> PNone \<longrightarrow> map_of spec k = Some v"
    unfolding spec by (blast intro: map_of_drop_none)
  have "map_of pre ''product_args'' = Some (PDict pa)"
    unfolding upd by (simp add: update_conv)
  with c2 have c3: "map_of spec ''product_args'' = Some (PDict pa)" by simp
  have c4: "map_of spec k = Some v"
    if k: "k \<in> set direct_fields" and v: "map_of args k = Some v" "v \<noteq> PNone" for k v
  proof -
    from k have dk: "k \<in> set (map fst survey_defaults)"
      by (auto simp: direct_fields_def survey_defaults_def)
    from k have nk: "k \<notin> set [''sigma_rules'', ''ioc_source'', ''ioc_list'', ''ioc_type'']"
      and np: "k \<noteq> ''product_args''"
      by (auto simp: direct_fields_def)
    have "map_of (fold merge_step args survey_defaults) k = Some v"
      using assms(2) v dk by (rule map_of_fold_merge_step)
    with same [OF nk] np have "map_of pre k = Some v"
      unfolding upd by (simp add: update_conv)
    with c2 v(2) show ?thesis by simp
  qed
  from c1 pre c2 pa c3 c4 show ?thesis by blast
qed

text \<open>A run whose host name is the empty string: the specification keeps it.\<close>

theorem build_survey_keeps_empty_values_witness:
  "build_survey sample_env blank_args ''cbr'' empty_world =
     (Inr [(''hostname'', PStr ''''), (''no_file'', PBool False), (''no_progress'', PBool False),
           (''log_dir'', PStr ''logs''), (''output_format'', PStr ''csv''),
           (''product_args'', PDict [])],
      logged_world ''20240101000000.cbr.log'') \<and>
   distinct (map fst blank_args) \<and>
   map_of [(''hostname'', PStr ''''), (''no_file'', PBool False), (''no_progress'', PBool False),
           (''log_dir'', PStr ''logs''), (''output_format'', PStr ''csv''),
           (''product_args'', PDict [])] ''hostname'' = Some (PStr '''')"
proof -
  have d: "distinct (map fst blank_args)"
    by (simp add: blank_args_def)
  have k: "''hostname'' \<in> set direct_fields"
    by (simp add: direct_fields_def)
  have v: "map_of blank_args ''hostname'' = Some (PStr '''')"
    by (simp add: blank_args_def)
  from build_survey_keeps_empty_values [OF run_blank d] k v
  have "map_of [(''hostname'', PStr ''''), (''no_file'', PBool False),
           (''no_progress'', PBool False), (''log_dir'', PStr ''logs''),
           (''output_format'', PStr ''csv''), (''product_args'', PDict [])] ''hostname''
          = Some (PStr '''')"
    by blast
  with run_blank d show ?thesis by blast
qed

section \<open>The credential builder\<close>

text \<open>
  C10. For a namespace whose \<^verbatim>\<open>edr\<close> is none of \<^verbatim>\<open>cbc\<close>, \<^verbatim>\<open>cbr\<close>, \<^verbatim>\<open>cortex\<close>, \<^verbatim>\<open>dfe\<close> and
  \<^verbatim>\<open>s1\<close>, and which has the attributes \<^verbatim>\<open>creds\<close> and \<^verbatim>\<open>profile\<close> that line 94 reads (with
  any values), the credential builder neither exits nor returns a mapping: it returns
  None, whatever the other attributes are.
\<close>

theorem credential_builder_unknown_backend:
  assumes "getattr args ''edr'' = Inr ev"
    and "ev \<notin> set [PStr ''cbc'', PStr ''cbr'', PStr ''cortex'', PStr ''dfe'', PStr ''s1'']"
    and "getattr args ''creds'' = Inr c"
    and "getattr args ''profile'' = Inr p"
  shows "credential_builder args = Inr PNone"
  using assms by (simp add: credential_builder_def bindE_def)

text \<open>An unknown backend with a credentials file, a profile and a site id.\<close>

theorem credential_builder_unknown_backend_witness:
  "getattr [(''edr'', PStr ''crowdstrike''), (''creds'', PStr ''/tmp/c''), (''profile'', PStr ''x''),
            (''auth_type'', PNone), (''tenant_ids'', PNone), (''site_ids'', PList [PStr ''1'']),
            (''account_ids'', PNone), (''account_names'', PNone)] ''edr'' = Inr (PStr ''crowdstrike'') \<and>
   PStr ''crowdstrike'' \<notin> set [PStr ''cbc'', PStr ''cbr'', PStr ''cortex'', PStr ''dfe'', PStr ''s1''] \<and>
   getattr [(''edr'', PStr ''crowdstrike''), (''creds'', PStr ''/tmp/c''), (''profile'', PStr ''x''),
            (''auth_type'', PNone), (''tenant_ids'', PNone), (''site_ids'', PList [PStr ''1'']),
            (''account_ids'', PNone), (''account_names'', PNone)] ''creds'' = Inr (PStr ''/tmp/c'') \<and>
   getattr [(''edr'', PStr ''crowdstrike''), (''creds'', PStr ''/tmp/c''), (''profile'', PStr ''x''),
            (''auth_type'', PNone), (''tenant_ids'', PNone), (''site_ids'', PList [PStr ''1'']),
            (''account_ids'', PNone), (''account_names'', PNone)] ''profile'' = Inr (PStr ''x'') \<and>
   credential_builder
           [(''edr'', PStr ''crowdstrike''), (''creds'', PStr ''/tmp/c''), (''profile'', PStr ''x''),
            (''auth_type'', PNone), (''tenant_ids'', PNone), (''site_ids'', PList [PStr ''1'']),
            (''account_ids'', PNone), (''account_names'', PNone)] = Inr PNone"
proof -
  have a: "getattr [(''edr'', PStr ''crowdstrike''), (''creds'', PStr ''/tmp/c''), (''profile'', PStr ''x''),
            (''auth_type'', PNone), (''tenant_ids'', PNone), (''site_ids'', PList [PStr ''1'']),
            (''account_ids'', PNone), (''account_names'', PNone)] ''edr'' = Inr (PStr ''crowdstrike'')"
    and b: "PStr ''crowdstrike'' \<notin> set [PStr ''cbc'', PStr ''cbr'', PStr ''cortex'', PStr ''dfe'', PStr ''s1'']"
    and c: "getattr [(''edr'', PStr ''crowdstrike''), (''creds'', PStr ''/tmp/c''), (''profile'', PStr ''x''),
            (''auth_type'', PNone), (''tenant_ids'', PNone), (''site_ids'', PList [PStr ''1'']),
            (''account_ids'', PNone), (''account_names'', PNone)] ''creds'' = Inr (PStr ''/tmp/c'')"
    and d: "getattr [(''edr'', PStr ''crowdstrike''), (''creds'', PStr ''/tmp/c''), (''profile'', PStr ''x''),
            (''auth_type'', PNone), (''tenant_ids'', PNone), (''site_ids'', PList [PStr ''1'']),
            (''account_ids'', PNone), (''account_names'', PNone)] ''profile'' = Inr (PStr ''x'')"
    by (simp_all add: getattr_def)
  from credential_builder_unknown_backend [OF a b c d] a b c d show ?thesis by blast
qed

end
